theory Spec2Isabelle
  imports Complex_Main "HOL-Library.Log_Nat" "HOL-Library.Char_ord" "HOL-Library.List_Lexorder"
    "HOL-Library.Word" "HOL-Library.Multiset"
begin

unbundle bit_operations_syntax

section \<open>Python values used by the email analysis service\<close>

text \<open>
  A Python \<open>str\<close> is modelled as an Isabelle \<open>string\<close>; a \<open>char\<close> stands for one
  code point in the range 0..255.  The private methods of \<open>AiService\<close> keep their names
  without the leading underscore, which an Isabelle identifier cannot start with.
\<close>

subsection \<open>Strings\<close>

definition lower_char :: "char \<Rightarrow> char" where
  \<comment> \<open>\<open>str.lower\<close> on one code point below 256: A-Z and the Latin-1 capitals
      (U+00C0..U+00DE without the multiplication sign U+00D7) move up by 32.  These code
      points keep the length of the string; beyond them \<open>str.lower\<close> can lengthen it
      (U+0130 becomes two code points), so no statement below moves \<open>lower\<close> across
      a slice.\<close>
  "lower_char c = (let n = (of_char c :: nat) in
     if (65 \<le> n \<and> n \<le> 90) \<or> (192 \<le> n \<and> n \<le> 222 \<and> n \<noteq> 215)
     then char_of (n + 32) else c)"

definition lower :: "string \<Rightarrow> string" where
  "lower s = map lower_char s"

definition is_space :: "char \<Rightarrow> bool" where
  \<comment> \<open>the code points below 256 that \<open>str.strip()\<close> removes\<close>
  "is_space c = (let n = (of_char c :: nat) in
     (9 \<le> n \<and> n \<le> 13) \<or> (28 \<le> n \<and> n \<le> 32) \<or> n = 133 \<or> n = 160)"

definition is_digit :: "char \<Rightarrow> bool" where
  \<comment> \<open>\<open>str.isdigit\<close> below 256: 0-9 and the superscripts U+00B2, U+00B3, U+00B9\<close>
  "is_digit c = (let n = (of_char c :: nat) in
     (48 \<le> n \<and> n \<le> 57) \<or> n = 178 \<or> n = 179 \<or> n = 185)"

definition lstrip_chars :: "string \<Rightarrow> string \<Rightarrow> string" where
  \<comment> \<open>\<open>s.lstrip(chars)\<close>\<close>
  "lstrip_chars chars s = dropWhile (\<lambda>c. c \<in> set chars) s"

definition strip :: "string \<Rightarrow> string" where
  \<comment> \<open>\<open>s.strip()\<close>\<close>
  "strip s = rev (dropWhile is_space (rev (dropWhile is_space s)))"

fun startswith :: "string \<Rightarrow> string \<Rightarrow> bool" where
  "startswith s [] = True"
| "startswith [] (p # ps) = False"
| "startswith (c # cs) (p # ps) = (c = p \<and> startswith cs ps)"

fun contains :: "string \<Rightarrow> string \<Rightarrow> bool" where
  \<comment> \<open>\<open>w in s\<close> on strings: \<open>w\<close> occurs as a contiguous substring\<close>
  "contains [] w = (w = [])"
| "contains (c # cs) w = (startswith (c # cs) w \<or> contains cs w)"

fun split_on :: "char \<Rightarrow> string \<Rightarrow> string list" where
  \<comment> \<open>\<open>s.split(sep)\<close> for a one-character separator: always at least one field\<close>
  "split_on sep [] = [[]]"
| "split_on sep (c # cs) =
     (case split_on sep cs of
        [] \<Rightarrow> [[c]]
      | f # fs \<Rightarrow> if c = sep then [] # f # fs else (c # f) # fs)"

subsection \<open>Floats\<close>

text \<open>
  A Python \<open>float\<close> is an IEEE 754 binary64 number.  A finite one is modelled by the
  rational it denotes; an arithmetic operation computes exactly and rounds the result to
  the nearest number with a 53-bit significand, ties to even (\<open>fl\<close>).  Overflow and
  subnormal numbers are outside the model: no quantity of this program comes near them.
\<close>

definition round_half_even :: "rat \<Rightarrow> int" where
  "round_half_even m = (let f = \<lfloor>m\<rfloor>; r = m - of_int f in
     if r < 1/2 then f else if 1/2 < r then f + 1 else if even f then f else f + 1)"

definition exponent2 :: "rat \<Rightarrow> int" where
  \<comment> \<open>the \<open>e\<close> with \<open>2^e \<le> |x| < 2^(e+1)\<close>, for \<open>x \<noteq> 0\<close>\<close>
  "exponent2 x = (case quotient_of \<bar>x\<bar> of (p, q) \<Rightarrow>
     let d = bitlen p - bitlen q in if 2 powi d \<le> \<bar>x\<bar> then d else d - 1)"

definition fl :: "rat \<Rightarrow> rat" where
  "fl x = (if x = 0 then 0 else
     let u = 2 powi (exponent2 x - 52) in of_int (round_half_even (x / u)) * u)"

definition fadd :: "rat \<Rightarrow> rat \<Rightarrow> rat" where
  "fadd x y = fl (x + y)"

definition fmul :: "rat \<Rightarrow> rat \<Rightarrow> rat" where
  "fmul x y = fl (x * y)"

definition float_lit :: "int \<Rightarrow> int \<Rightarrow> rat" where
  \<comment> \<open>the float that a decimal literal with the exact value \<open>n / d\<close> denotes\<close>
  "float_lit n d = fl (of_int n / of_int d)"

subsection \<open>Values\<close>

datatype pyval =
    PNone
  | PBool bool
  | PInt int
  | PFloat rat
  | PStr string
  | PList "pyval list"
  | PDict "(string \<times> pyval) list"
  | PObj string nat

text \<open>
  \<open>PDict\<close> is a dict with string keys in insertion order; \<open>PObj cls addr\<close> is an instance
  of a class that defines neither \<open>__str__\<close> nor \<open>__repr__\<close>, living at address \<open>addr\<close>.
\<close>

fun dict_get :: "(string \<times> pyval) list \<Rightarrow> string \<Rightarrow> pyval \<Rightarrow> pyval" where
  \<comment> \<open>\<open>d.get(k, default)\<close>\<close>
  "dict_get d k dflt = (case map_of d k of None \<Rightarrow> dflt | Some v \<Rightarrow> v)"

fun truthy :: "pyval \<Rightarrow> bool" where
  "truthy PNone = False"
| "truthy (PBool b) = b"
| "truthy (PInt i) = (i \<noteq> 0)"
| "truthy (PFloat x) = (x \<noteq> 0)"
| "truthy (PStr s) = (s \<noteq> [])"
| "truthy (PList xs) = (xs \<noteq> [])"
| "truthy (PDict kvs) = (kvs \<noteq> [])"
| "truthy (PObj c a) = True"

section \<open>The inference backends\<close>

text \<open>
  The service talks to four backends: the chat completion endpoint, the map-reduce
  summarization chain (text splitter included), the sentiment pipeline and the spaCy
  pipeline.  Each call is recorded in a log that is threaded through the service; what
  a backend answers may depend on the request and on everything that was called before.
  An answer \<open>None\<close> stands for any exception raised while the call is made or its
  response is taken apart.
\<close>

record chat_request =
  model :: string
  system_content :: string
  user_content :: string
  max_tokens :: nat
  temperature :: rat

datatype call =
    ChatCall chat_request
  | ChainCall string
  | SentimentCall string
  | NlpCall string

record backends =
  chat_create :: "call list \<Rightarrow> chat_request \<Rightarrow> string option"
  summarize_chain :: "call list \<Rightarrow> string \<Rightarrow> string option"
  sentiment_model :: "call list \<Rightarrow> string \<Rightarrow> (string \<times> rat) option"
  nlp :: "call list \<Rightarrow> string \<Rightarrow> (string \<times> string \<times> int \<times> int) list option"

definition nl :: string where
  "nl = [CHR 0x0A]"

definition indent12 :: string where
  "indent12 = replicate 12 CHR '' ''"

definition prompt_block :: "string list \<Rightarrow> string" where
  \<comment> \<open>a triple-quoted template whose lines are indented by twelve blanks\<close>
  "prompt_block ls = concat (map (\<lambda>l. nl @ indent12 @ l) ls) @ nl @ indent12"

section \<open>The sub-analyzers\<close>

definition generate_summary :: "backends \<Rightarrow> string \<Rightarrow> string \<Rightarrow> call list \<Rightarrow> string \<times> call list" where
  "generate_summary be subject text calls =
     (if length text < 4000 then
        (let req = \<lparr>model = ''gpt-3.5-turbo'',
                    system_content = ''You are an email summarization assistant. Provide a concise summary of the email in 1-2 sentences.'',
                    user_content = ''Subject: '' @ subject @ nl @ nl @ ''Email: '' @ text,
                    max_tokens = 100, temperature = float_lit 3 10\<rparr>
         in case chat_create be calls req of
              Some content \<Rightarrow> (strip content, calls @ [ChatCall req])
            | None \<Rightarrow> (''Could not generate summary.'', calls @ [ChatCall req]))
      else
        (case summarize_chain be calls text of
           Some summary \<Rightarrow> (strip summary, calls @ [ChainCall text])
         | None \<Rightarrow> (''Could not generate summary.'', calls @ [ChainCall text])))"

definition analyze_sentiment :: "backends \<Rightarrow> string \<Rightarrow> call list \<Rightarrow> (string \<times> rat) \<times> call list" where
  "analyze_sentiment be text calls =
     (let truncated_text = (if length text > 512 then take 512 text else text) in
      case sentiment_model be calls truncated_text of
        None \<Rightarrow> ((''neutral'', float_lit 5 10), calls @ [SentimentCall truncated_text])
      | Some (raw_label, score) \<Rightarrow>
          let label = lower raw_label in
          if label = ''positive'' \<or> (label = ''neutral'' \<and> score > float_lit 7 10)
            then ((''positive'', score), calls @ [SentimentCall truncated_text])
          else if label = ''negative'' \<or> (label = ''neutral'' \<and> score < float_lit 3 10)
            then ((''negative'', score), calls @ [SentimentCall truncated_text])
          else ((''neutral'', score), calls @ [SentimentCall truncated_text]))"

definition entity_dict :: "string \<times> string \<times> int \<times> int \<Rightarrow> pyval" where
  "entity_dict ent = (case ent of (t, l, s, e) \<Rightarrow>
     PDict [(''text'', PStr t), (''label'', PStr l), (''start'', PInt s), (''end'', PInt e)])"

definition extract_entities :: "backends \<Rightarrow> string \<Rightarrow> call list \<Rightarrow> pyval list \<times> call list" where
  "extract_entities be text calls =
     (case nlp be calls (take 10000 text) of
        Some ents \<Rightarrow> (fold (\<lambda>ent entities. entities @ [entity_dict ent]) ents [],
                      calls @ [NlpCall (take 10000 text)])
      | None \<Rightarrow> ([], calls @ [NlpCall (take 10000 text)]))"

definition categorize_prompt :: "string \<Rightarrow> string \<Rightarrow> string" where
  "categorize_prompt subject text = prompt_block
     [''Please categorize the following email into one or more of these categories:'',
      ''- Urgent'', ''- Action Required'', ''- Meeting'', ''- Information'',
      ''- Project Update'', ''- External Client'', ''- Internal Team'', ''- Personal'',
      ''- Marketing'', ''- Sales'', ''- HR'', ''- Finance'', ''- Technical'',
      [],
      ''Return only the category names as a comma-separated list.'',
      [],
      ''Subject: '' @ subject,
      [],
      ''Email: '' @ take 1000 text]"

definition categorize_email :: "backends \<Rightarrow> string \<Rightarrow> string \<Rightarrow> call list \<Rightarrow> string list \<times> call list" where
  "categorize_email be subject text calls =
     (let req = \<lparr>model = ''gpt-3.5-turbo'',
                 system_content = ''You are an email categorization assistant.'',
                 user_content = categorize_prompt subject text,
                 max_tokens = 50, temperature = float_lit 1 10\<rparr>
      in case chat_create be calls req of
           Some content \<Rightarrow>
             ([strip cat. cat \<leftarrow> split_on CHR '','' content, strip cat \<noteq> []],
              calls @ [ChatCall req])
         | None \<Rightarrow> ([''Uncategorized''], calls @ [ChatCall req]))"

definition urgent_keywords :: "string list" where
  "urgent_keywords = [''urgent'', ''asap'', ''immediately'', ''deadline'', ''important'', ''critical'']"

definition action_keywords :: "string list" where
  "action_keywords = [''please'', ''request'', ''action'', ''review'', ''approve'', ''confirm'']"

definition subscript_label :: "pyval \<Rightarrow> pyval option" where
  \<comment> \<open>\<open>e["label"]\<close>: \<open>None\<close> when it raises (no such key, or \<open>e\<close> is no dict)\<close>
  "subscript_label e = (case e of PDict d \<Rightarrow> map_of d ''label'' | _ \<Rightarrow> None)"

fun person_filter :: "pyval list \<Rightarrow> pyval list option" where
  \<comment> \<open>\<open>[e for e in entities if e["label"] in ["PERSON", "ORG"]]\<close>\<close>
  "person_filter [] = Some []"
| "person_filter (e # es) =
     (case subscript_label e of
        None \<Rightarrow> None
      | Some l \<Rightarrow>
          (case person_filter es of
             None \<Rightarrow> None
           | Some r \<Rightarrow> Some (if l \<in> set [PStr ''PERSON'', PStr ''ORG''] then e # r else r)))"

definition calculate_importance :: "string \<Rightarrow> string \<Rightarrow> pyval list \<Rightarrow> rat" where
  "calculate_importance subject text entities =
     (let importance = 0;
          importance = (if list_ex (\<lambda>word. contains (lower subject) word) urgent_keywords
                        then fadd importance (float_lit 4 10) else importance);
          importance = (if list_ex (\<lambda>word. contains (take 500 (lower text)) word) urgent_keywords
                        then fadd importance (float_lit 2 10) else importance);
          importance = (if list_ex (\<lambda>word. contains (take 1000 (lower text)) word) action_keywords
                        then fadd importance (float_lit 2 10) else importance)
      in case person_filter entities of
           None \<Rightarrow> float_lit 5 10
         | Some person_entities \<Rightarrow>
             (let importance = fadd importance
                    (min (fmul (fl (of_nat (length person_entities))) (float_lit 5 100)) (float_lit 2 10))
              in min (max importance 0) 1))"

definition extract_action_items :: "backends \<Rightarrow> string \<Rightarrow> call list \<Rightarrow> string list \<times> call list" where
  "extract_action_items be text calls =
     (let req = \<lparr>model = ''gpt-3.5-turbo'',
                 system_content = ''You are an assistant that extracts action items from emails.'',
                 user_content = prompt_block
                   [''Extract any action items, tasks, or requests from this email.'',
                    ''Return them as a list of concise bullet points.'',
                    ''If there are no action items, return an empty list.'',
                    [],
                    ''Email: '' @ take 2000 text],
                 max_tokens = 200, temperature = float_lit 1 10\<rparr>
      in case chat_create be calls req of
           None \<Rightarrow> ([], calls @ [ChatCall req])
         | Some response \<Rightarrow>
             (let content = strip response in
              (fold (\<lambda>line action_items.
                  let line = strip line in
                  if line \<noteq> [] \<and> (startswith line ''-'' \<or> startswith line ''*''
                        \<or> list_ex is_digit (take 2 line))
                  then (let item = lstrip_chars ''-*0123456789. '' line in
                        if item \<noteq> [] then action_items @ [item] else action_items)
                  else action_items)
                (split_on CHR 0x0A content) [],
               calls @ [ChatCall req])))"

definition extract_topics :: "backends \<Rightarrow> string \<Rightarrow> call list \<Rightarrow> string list \<times> call list" where
  "extract_topics be text calls =
     (let req = \<lparr>model = ''gpt-3.5-turbo'',
                 system_content = ''You are an assistant that extracts main topics from text.'',
                 user_content = prompt_block
                   [''Extract the main topics or themes from this email.'',
                    ''Return them as a list of 2-4 keywords or short phrases.'',
                    [],
                    ''Email: '' @ take 1500 text],
                 max_tokens = 100, temperature = float_lit 1 10\<rparr>
      in case chat_create be calls req of
           None \<Rightarrow> ([], calls @ [ChatCall req])
         | Some response \<Rightarrow>
             (let content = strip response in
              (fold (\<lambda>line topics.
                  let line = strip line in
                  if line \<noteq> [] \<and> (startswith line ''-'' \<or> startswith line ''*''
                        \<or> list_ex is_digit (take 2 line))
                  then (let topic = lstrip_chars ''-*0123456789. '' line in
                        if topic \<noteq> [] then topics @ [topic] else topics)
                  else topics)
                (split_on CHR 0x0A content) [],
               calls @ [ChatCall req])))"

section \<open>The line rule of the specification\<close>

definition accepted_line :: "string \<Rightarrow> bool" where
  \<comment> \<open>the acceptance rule in the words of the specification\<close>
  "accepted_line l = (l \<noteq> [] \<and>
     (take 1 l = ''-'' \<or> take 1 l = ''*'' \<or> list_ex is_digit (take 2 l)))"

definition item_lines :: "string \<Rightarrow> string list" where
  "item_lines out =
     filter (\<lambda>item. item \<noteq> [])
       (map (lstrip_chars ''-*0123456789. '')
         (filter accepted_line (map strip (split_on CHR 0x0A out))))"

section \<open>The orchestrator\<close>

text \<open>
  The body of \<open>analyze_email_content\<close>, without the cache decorator.  The email is a
  dict.  A body that is truthy but no \<open>str\<close>, or a subject that is no \<open>str\<close> next to
  such a body, is outside the model (the result is \<open>None\<close>): the Email record has string
  fields.
\<close>

definition analyze_email_content ::
    "backends \<Rightarrow> (string \<times> pyval) list \<Rightarrow> call list \<Rightarrow> pyval option \<times> call list" where
  "analyze_email_content be email calls =
     (let text = dict_get email ''body'' (PStr []);
          subject = dict_get email ''subject'' (PStr [])
      in if \<not> truthy text then
           (Some (PDict [(''summary'', PStr ''No content to analyze''),
                         (''sentiment'', PStr ''neutral''),
                         (''entities'', PList []),
                         (''categories'', PList []),
                         (''importance_score'', PFloat 0),
                         (''action_items'', PList []),
                         (''topics'', PList [])]), calls)
         else
           (case (subject, text) of
              (PStr subject, PStr text) \<Rightarrow>
                (let (summary, calls) = generate_summary be subject text calls;
                     ((sentiment, sentiment_score), calls) = analyze_sentiment be text calls;
                     (entities, calls) = extract_entities be text calls;
                     (categories, calls) = categorize_email be subject text calls;
                     importance_score = calculate_importance subject text entities;
                     (action_items, calls) = extract_action_items be text calls;
                     (topics, calls) = extract_topics be text calls
                 in (Some (PDict [(''summary'', PStr summary),
                                  (''sentiment'', PStr sentiment),
                                  (''sentiment_score'', PFloat sentiment_score),
                                  (''entities'', PList entities),
                                  (''categories'', PList (map PStr categories)),
                                  (''importance_score'', PFloat importance_score),
                                  (''action_items'', PList (map PStr action_items)),
                                  (''topics'', PList (map PStr topics))]), calls))
            | _ \<Rightarrow> (None, calls)))"

section \<open>Fixtures and the taxonomy of the specification\<close>

definition fixed_backends :: "string option \<Rightarrow> (string \<times> rat) option \<Rightarrow> backends" where
  \<comment> \<open>backends that give the same answer to every request, for concrete runs\<close>
  "fixed_backends answer senti =
     \<lparr>chat_create = \<lambda>h r. answer, summarize_chain = \<lambda>h t. answer,
      sentiment_model = \<lambda>h t. senti, nlp = \<lambda>h t. Some []\<rparr>"

definition taxonomy :: "string list" where
  "taxonomy = [''Urgent'', ''Action Required'', ''Meeting'', ''Information'',
     ''Project Update'', ''External Client'', ''Internal Team'', ''Personal'',
     ''Marketing'', ''Sales'', ''HR'', ''Finance'', ''Technical'']"

section \<open>String forms of values\<close>

text \<open>
  \<open>str\<close> and \<open>repr\<close> of the modelled values, as CPython prints them.  Three functions
  of the standard library are not modelled but taken as parameters: the shortest
  round-trip \<open>repr\<close> of a float, \<open>json.dumps\<close> (\<open>None\<close> when it raises \<open>TypeError\<close> or
  \<open>ValueError\<close>) and \<open>json.loads\<close> (\<open>None\<close> when it raises \<open>JSONDecodeError\<close>).
\<close>

record pylib =
  float_repr :: "rat \<Rightarrow> string"
  json_dumps :: "pyval \<Rightarrow> string option"
  json_loads :: "string \<Rightarrow> pyval option"

fun digits_of :: "nat \<Rightarrow> nat \<Rightarrow> string" where
  \<comment> \<open>the digits of \<open>n\<close> in base \<open>b\<close> (2 to 16), lower case\<close>
  "digits_of b n =
     (if b < 2 \<or> n < b then [''0123456789abcdef'' ! n]
      else digits_of b (n div b) @ [''0123456789abcdef'' ! (n mod b)])"

definition int_str :: "int \<Rightarrow> string" where
  "int_str i = (if i < 0 then ''-'' @ digits_of 10 (nat (- i)) else digits_of 10 (nat i))"

definition is_printable :: "char \<Rightarrow> bool" where
  \<comment> \<open>\<open>str.isprintable\<close> below 256\<close>
  "is_printable c = (let n = (of_char c :: nat) in
     (32 \<le> n \<and> n < 127) \<or> (161 \<le> n \<and> n \<noteq> 173))"

definition repr_char :: "char \<Rightarrow> char \<Rightarrow> string" where
  "repr_char quote c =
     (if c = quote \<or> c = CHR 0x5C then [CHR 0x5C, c]
      else if c = CHR 0x09 then [CHR 0x5C, CHR ''t'']
      else if c = CHR 0x0A then [CHR 0x5C, CHR ''n'']
      else if c = CHR 0x0D then [CHR 0x5C, CHR ''r'']
      else if is_printable c then [c]
      else [CHR 0x5C, CHR ''x''] @
           [''0123456789abcdef'' ! (of_char c div 16), ''0123456789abcdef'' ! (of_char c mod 16)])"

definition str_repr :: "string \<Rightarrow> string" where
  \<comment> \<open>single quotes, unless the string has a single quote and no double quote\<close>
  "str_repr s =
     (let quote = (if CHR 0x27 \<in> set s \<and> CHR 0x22 \<notin> set s then CHR 0x22 else CHR 0x27)
      in [quote] @ concat (map (repr_char quote) s) @ [quote])"

fun join :: "string \<Rightarrow> string list \<Rightarrow> string" where
  \<comment> \<open>\<open>sep.join(parts)\<close>\<close>
  "join sep [] = []"
| "join sep [p] = p"
| "join sep (p # q # ps) = p @ sep @ join sep (q # ps)"

fun py_repr :: "pylib \<Rightarrow> pyval \<Rightarrow> string" where
  "py_repr lib PNone = ''None''"
| "py_repr lib (PBool b) = (if b then ''True'' else ''False'')"
| "py_repr lib (PInt i) = int_str i"
| "py_repr lib (PFloat x) = float_repr lib x"
| "py_repr lib (PStr s) = str_repr s"
| "py_repr lib (PList vs) = ''['' @ join '', '' (map (py_repr lib) vs) @ '']''"
| "py_repr lib (PDict kvs) =
     ''{'' @ join '', '' (map (\<lambda>kv. str_repr (fst kv) @ '': '' @ py_repr lib (snd kv)) kvs) @ ''}''"
| "py_repr lib (PObj cls addr) = ''<'' @ cls @ '' object at 0x'' @ digits_of 16 addr @ ''>''"

definition py_str :: "pylib \<Rightarrow> pyval \<Rightarrow> string" where
  \<comment> \<open>\<open>str(v)\<close>, which is also what an f-string field \<open>{v}\<close> gives\<close>
  "py_str lib v = (case v of PStr s \<Rightarrow> s | _ \<Rightarrow> py_repr lib v)"

definition encode_utf8 :: "string \<Rightarrow> nat list" where
  \<comment> \<open>\<open>s.encode()\<close> for code points below 256\<close>
  "encode_utf8 s = concat (map (\<lambda>c. let n = (of_char c :: nat) in
      if n < 128 then [n] else [192 + n div 64, 128 + n mod 64]) s)"

section \<open>MD5\<close>

text \<open>
  \<open>hashlib.md5(data).hexdigest()\<close>, after RFC 1321, on 32-bit words.
\<close>

type_synonym u32 = "32 word"

definition md5_K :: "u32 list" where
  "md5_K = [0xd76aa478, 0xe8c7b756, 0x242070db, 0xc1bdceee, 0xf57c0faf, 0x4787c62a, 0xa8304613, 0xfd469501,
            0x698098d8, 0x8b44f7af, 0xffff5bb1, 0x895cd7be, 0x6b901122, 0xfd987193, 0xa679438e, 0x49b40821,
            0xf61e2562, 0xc040b340, 0x265e5a51, 0xe9b6c7aa, 0xd62f105d, 0x02441453, 0xd8a1e681, 0xe7d3fbc8,
            0x21e1cde6, 0xc33707d6, 0xf4d50d87, 0x455a14ed, 0xa9e3e905, 0xfcefa3f8, 0x676f02d9, 0x8d2a4c8a,
            0xfffa3942, 0x8771f681, 0x6d9d6122, 0xfde5380c, 0xa4beea44, 0x4bdecfa9, 0xf6bb4b60, 0xbebfbc70,
            0x289b7ec6, 0xeaa127fa, 0xd4ef3085, 0x04881d05, 0xd9d4d039, 0xe6db99e5, 0x1fa27cf8, 0xc4ac5665,
            0xf4292244, 0x432aff97, 0xab9423a7, 0xfc93a039, 0x655b59c3, 0x8f0ccc92, 0xffeff47d, 0x85845dd1,
            0x6fa87e4f, 0xfe2ce6e0, 0xa3014314, 0x4e0811a1, 0xf7537e82, 0xbd3af235, 0x2ad7d2bb, 0xeb86d391]"

definition md5_S :: "nat list" where
  "md5_S = [7, 12, 17, 22, 7, 12, 17, 22, 7, 12, 17, 22, 7, 12, 17, 22,
            5, 9, 14, 20, 5, 9, 14, 20, 5, 9, 14, 20, 5, 9, 14, 20,
            4, 11, 16, 23, 4, 11, 16, 23, 4, 11, 16, 23, 4, 11, 16, 23,
            6, 10, 15, 21, 6, 10, 15, 21, 6, 10, 15, 21, 6, 10, 15, 21]"

definition rotl32 :: "nat \<Rightarrow> u32 \<Rightarrow> u32" where
  "rotl32 n x = push_bit n x OR drop_bit (32 - n) x"

definition md5_step :: "u32 list \<Rightarrow> nat \<Rightarrow> u32 \<times> u32 \<times> u32 \<times> u32 \<Rightarrow> u32 \<times> u32 \<times> u32 \<times> u32" where
  "md5_step M i st = (case st of (A, B, C, D) \<Rightarrow>
     let (F, g) =
        (if i < 16 then ((B AND C) OR (NOT B AND D), i)
         else if i < 32 then ((D AND B) OR (NOT D AND C), (5 * i + 1) mod 16)
         else if i < 48 then (B XOR C XOR D, (3 * i + 5) mod 16)
         else (C XOR (B OR NOT D), (7 * i) mod 16));
       F' = F + A + md5_K ! i + M ! g
     in (D, B + rotl32 (md5_S ! i) F', B, C))"

definition md5_block :: "u32 \<times> u32 \<times> u32 \<times> u32 \<Rightarrow> u32 list \<Rightarrow> u32 \<times> u32 \<times> u32 \<times> u32" where
  "md5_block h M = (case h of (a0, b0, c0, d0) \<Rightarrow>
     case fold (md5_step M) [0..<64] h of (A, B, C, D) \<Rightarrow> (a0 + A, b0 + B, c0 + C, d0 + D))"

fun le_word :: "nat list \<Rightarrow> u32" where
  \<comment> \<open>little-endian bytes to a word\<close>
  "le_word [] = 0"
| "le_word (b # bs) = of_nat b + push_bit 8 (le_word bs)"

fun chunks :: "nat \<Rightarrow> nat \<Rightarrow> 'a list \<Rightarrow> 'a list list" where
  \<comment> \<open>the first \<open>k\<close> pieces of length \<open>n\<close>\<close>
  "chunks 0 n xs = []"
| "chunks (Suc k) n xs = take n xs # chunks k n (drop n xs)"

definition md5_pad :: "nat list \<Rightarrow> nat list" where
  "md5_pad bs = (let l = length bs in
     bs @ [128] @ replicate ((119 - l mod 64) mod 64) 0
        @ map (\<lambda>i. (8 * l div 256 ^ i) mod 256) [0..<8])"

definition md5_words :: "nat list \<Rightarrow> u32 list" where
  "md5_words blk = map le_word (chunks 16 4 blk)"

definition md5_init :: "u32 \<times> u32 \<times> u32 \<times> u32" where
  "md5_init = (0x67452301, 0xefcdab89, 0x98badcfe, 0x10325476)"

definition md5_state :: "nat list \<Rightarrow> u32 \<times> u32 \<times> u32 \<times> u32" where
  "md5_state bs = (let p = md5_pad bs in
     fold (\<lambda>blk h. md5_block h (md5_words blk)) (chunks (length p div 64) 64 p) md5_init)"

definition hex_byte :: "nat \<Rightarrow> string" where
  "hex_byte b = [''0123456789abcdef'' ! (b div 16), ''0123456789abcdef'' ! (b mod 16)]"

definition word_bytes :: "u32 \<Rightarrow> nat list" where
  "word_bytes w = map (\<lambda>i. unat (drop_bit (8 * i) w) mod 256) [0..<4]"

definition md5_hexdigest :: "nat list \<Rightarrow> string" where
  "md5_hexdigest bs = (case md5_state bs of (a, b, c, d) \<Rightarrow>
     concat (map hex_byte (concat (map word_bytes [a, b, c, d]))))"

section \<open>The cache: key derivation\<close>

definition cache_key_string :: "pylib \<Rightarrow> string \<Rightarrow> pyval list \<Rightarrow> (string \<times> pyval) list \<Rightarrow> string" where
  \<comment> \<open>the local \<open>key_string\<close> of \<open>generate_cache_key\<close>; \<open>kwargs\<close> is a dict in insertion
      order, and \<open>sorted(kwargs.items())\<close> orders its items by key, the keys being distinct\<close>
  "cache_key_string lib func_name args kwargs =
     (let key_parts = [func_name];
          key_parts = fold (\<lambda>arg key_parts. key_parts @ [py_str lib arg]) args key_parts;
          sorted_items = sort_key fst kwargs;
          key_parts = fold (\<lambda>kv key_parts. key_parts @ [fst kv @ '':'' @ py_str lib (snd kv)])
                        sorted_items key_parts
      in join ''_'' key_parts)"

definition generate_cache_key :: "pylib \<Rightarrow> string \<Rightarrow> pyval list \<Rightarrow> (string \<times> pyval) list \<Rightarrow> string" where
  "generate_cache_key lib func_name args kwargs =
     ''intellimail:cache:'' @ md5_hexdigest (encode_utf8 (cache_key_string lib func_name args kwargs))"

section \<open>The cache: the Redis store\<close>

text \<open>
  The store holds entries \<open>(key, value, ttl)\<close> with distinct keys.  Time does not pass
  in the model, so no entry expires.  Every operation of the client first takes the next
  flag of a fault schedule: \<open>True\<close> makes that operation raise \<open>RedisError\<close> and leave
  the entries alone; when the schedule is used up, operations succeed.
\<close>

datatype exc = RedisError | ValueError | Raised string

record redis =
  entries :: "(string \<times> string \<times> nat) list"
  faults :: "bool list"

definition next_fault :: "redis \<Rightarrow> bool \<times> redis" where
  "next_fault r = (case faults r of [] \<Rightarrow> (False, r) | f # fs \<Rightarrow> (f, r\<lparr>faults := fs\<rparr>))"

definition redis_get :: "redis \<Rightarrow> string \<Rightarrow> (exc + string option) \<times> redis" where
  "redis_get r key = (case next_fault r of
       (True, r') \<Rightarrow> (Inl RedisError, r')
     | (False, r') \<Rightarrow> (Inr (map_option fst (map_of (entries r') key)), r'))"

definition redis_setex :: "redis \<Rightarrow> string \<Rightarrow> nat \<Rightarrow> string \<Rightarrow> (exc + unit) \<times> redis" where
  "redis_setex r key ttl v = (case next_fault r of
       (True, r') \<Rightarrow> (Inl RedisError, r')
     | (False, r') \<Rightarrow>
         (Inr (), r'\<lparr>entries := filter (\<lambda>e. fst e \<noteq> key) (entries r') @ [(key, v, ttl)]\<rparr>))"

text \<open>
  \<open>KEYS\<close> matches glob-style patterns: \<open>*\<close> is any sequence, \<open>?\<close> any one character,
  \<open>[...]\<close> a character class (with \<open>^\<close> for negation and \<open>a-z\<close> ranges), and a
  backslash makes the next character literal.
\<close>

datatype class_item = CChar char | CRange char char

datatype glob_token = Star | AnyChar | Lit char | CharClass bool "class_item list"

datatype glob_mode = Outside | Inside bool "class_item list"

fun parse_glob :: "glob_mode \<Rightarrow> string \<Rightarrow> glob_token list" where
  "parse_glob Outside [] = []"
| "parse_glob (Inside neg items) [] = [CharClass neg items]"
| "parse_glob Outside (c # cs) =
     (if c = CHR ''*'' then Star # parse_glob Outside cs
      else if c = CHR ''?'' then AnyChar # parse_glob Outside cs
      else if c = CHR ''['' then
        (case cs of
           d # ds \<Rightarrow> if d = CHR ''^'' then parse_glob (Inside True []) ds
                     else parse_glob (Inside False []) cs
         | [] \<Rightarrow> parse_glob (Inside False []) cs)
      else if c = CHR 0x5C then
        (case cs of
           d # ds \<Rightarrow> Lit d # parse_glob Outside ds
         | [] \<Rightarrow> [Lit c])
      else Lit c # parse_glob Outside cs)"
| "parse_glob (Inside neg items) (c # cs) =
     (if c = CHR '']'' then CharClass neg items # parse_glob Outside cs
      else if c = CHR 0x5C then
        (case cs of
           d # ds \<Rightarrow> parse_glob (Inside neg (items @ [CChar d])) ds
         | [] \<Rightarrow> parse_glob (Inside neg (items @ [CChar c])) cs)
      else
        (case cs of
           d # e # es \<Rightarrow> if d = CHR ''-'' then parse_glob (Inside neg (items @ [CRange c e])) es
                         else parse_glob (Inside neg (items @ [CChar c])) cs
         | _ \<Rightarrow> parse_glob (Inside neg (items @ [CChar c])) cs))"

fun in_class :: "class_item \<Rightarrow> char \<Rightarrow> bool" where
  "in_class (CChar x) c = (c = x)"
| "in_class (CRange lo hi) c = ((lo \<le> c \<and> c \<le> hi) \<or> (hi \<le> c \<and> c \<le> lo))"

fun match_tokens :: "glob_token list \<Rightarrow> string \<Rightarrow> bool" where
  "match_tokens [] s = (s = [])"
| "match_tokens (Star # ts) [] = match_tokens ts []"
| "match_tokens (Star # ts) (c # cs) = (match_tokens ts (c # cs) \<or> match_tokens (Star # ts) cs)"
| "match_tokens (AnyChar # ts) [] = False"
| "match_tokens (AnyChar # ts) (c # cs) = match_tokens ts cs"
| "match_tokens (Lit x # ts) [] = False"
| "match_tokens (Lit x # ts) (c # cs) = (c = x \<and> match_tokens ts cs)"
| "match_tokens (CharClass neg items # ts) [] = False"
| "match_tokens (CharClass neg items # ts) (c # cs) =
     ((list_ex (\<lambda>i. in_class i c) items \<noteq> neg) \<and> match_tokens ts cs)"

definition glob_match :: "string \<Rightarrow> string \<Rightarrow> bool" where
  "glob_match pat s = match_tokens (parse_glob Outside pat) s"

definition redis_keys :: "redis \<Rightarrow> string \<Rightarrow> (exc + string list) \<times> redis" where
  "redis_keys r pat = (case next_fault r of
       (True, r') \<Rightarrow> (Inl RedisError, r')
     | (False, r') \<Rightarrow> (Inr (filter (glob_match pat) (map fst (entries r'))), r'))"

definition redis_delete :: "redis \<Rightarrow> string list \<Rightarrow> (exc + nat) \<times> redis" where
  \<comment> \<open>\<open>DEL\<close> answers the number of keys that were removed\<close>
  "redis_delete r ks = (case next_fault r of
       (True, r') \<Rightarrow> (Inl RedisError, r')
     | (False, r') \<Rightarrow>
         (Inr (length (filter (\<lambda>e. fst e \<in> set ks) (entries r'))),
          r'\<lparr>entries := filter (\<lambda>e. fst e \<notin> set ks) (entries r')\<rparr>))"

section \<open>The cache: decorator and invalidation\<close>

definition is_cache_enabled :: "(string \<rightharpoonup> string) \<Rightarrow> bool" where
  "is_cache_enabled env =
     (lower (case env ''ENABLE_EMAIL_CACHE'' of None \<Rightarrow> ''True'' | Some v \<Rightarrow> v) = ''true'')"

definition serialize_for_cache :: "pylib \<Rightarrow> pyval \<Rightarrow> exc + string" where
  "serialize_for_cache lib obj =
     (case json_dumps lib obj of Some s \<Rightarrow> Inr s | None \<Rightarrow> Inl ValueError)"

definition deserialize_from_cache :: "pylib \<Rightarrow> string \<Rightarrow> pyval" where
  "deserialize_from_cache lib data =
     (case json_loads lib data of Some v \<Rightarrow> v | None \<Rightarrow> PNone)"

text \<open>
  \<open>cache ttl\<close> applied to a function \<open>func\<close> named \<open>func_name\<close> is the wrapper below.
  The wrapped function works on a state of its own (\<open>'s\<close>) and returns a value or raises;
  the wrapper threads the store and that state.
\<close>

definition cache ::
    "(string \<rightharpoonup> string) \<Rightarrow> pylib \<Rightarrow> nat \<Rightarrow> string
      \<Rightarrow> (pyval list \<Rightarrow> (string \<times> pyval) list \<Rightarrow> 's \<Rightarrow> (exc + pyval) \<times> 's)
      \<Rightarrow> pyval list \<Rightarrow> (string \<times> pyval) list \<Rightarrow> redis \<times> 's \<Rightarrow> (exc + pyval) \<times> redis \<times> 's" where
  "cache env lib ttl func_name func args kwargs st = (case st of (r, s) \<Rightarrow>
     if \<not> is_cache_enabled env then
       (case func args kwargs s of (res, s') \<Rightarrow> (res, r, s'))
     else
       let cache_key = generate_cache_key lib func_name args kwargs in
       case redis_get r cache_key of
         (Inl e, r') \<Rightarrow> (case func args kwargs s of (res, s') \<Rightarrow> (res, r', s'))
       | (Inr cached_value, r') \<Rightarrow>
           if cached_value \<noteq> None \<and> cached_value \<noteq> Some [] then
             (Inr (deserialize_from_cache lib (the cached_value)), r', s)
           else
             (case func args kwargs s of
                (Inl e, s') \<Rightarrow> (Inl e, r', s')
              | (Inr result, s') \<Rightarrow>
                  (case serialize_for_cache lib result of
                     Inl e \<Rightarrow> (Inr result, r', s')
                   | Inr serialized \<Rightarrow>
                       (case redis_setex r' cache_key ttl serialized of
                          (_, r'') \<Rightarrow> (Inr result, r'', s')))))"

definition invalidate_cache :: "string \<Rightarrow> redis \<Rightarrow> nat \<times> redis" where
  "invalidate_cache pattern r =
     (case redis_keys r (''intellimail:cache:'' @ pattern @ ''*'') of
        (Inl e, r') \<Rightarrow> (0, r')
      | (Inr keys, r') \<Rightarrow>
          if keys \<noteq> [] then
            (case redis_delete r' keys of
               (Inl e, r'') \<Rightarrow> (0, r'')
             | (Inr cnt, r'') \<Rightarrow> (cnt, r''))
          else (0, r'))"

text \<open>
  The service method with its decorator, called as the API layer calls it
  (\<open>ai_service.analyze_email_content(email)\<close>): \<open>self\<close> is the first positional
  argument of the wrapper, the email the second, and there is no keyword argument.  Other
  argument shapes raise.
\<close>

definition analyze_email_content_func ::
    "backends \<Rightarrow> pyval list \<Rightarrow> (string \<times> pyval) list \<Rightarrow> call list \<Rightarrow> (exc + pyval) \<times> call list" where
  "analyze_email_content_func be args kwargs calls =
     (case (args, kwargs) of
        ([self, PDict email], []) \<Rightarrow>
          (case analyze_email_content be email calls of
             (Some result, calls') \<Rightarrow> (Inr result, calls')
           | (None, calls') \<Rightarrow> (Inl (Raised ''outside the model''), calls'))
      | ([self, email], []) \<Rightarrow> (Inl (Raised ''AttributeError''), calls)
      | _ \<Rightarrow> (Inl (Raised ''TypeError''), calls))"

definition cached_analyze_email_content ::
    "(string \<rightharpoonup> string) \<Rightarrow> pylib \<Rightarrow> backends \<Rightarrow> pyval \<Rightarrow> pyval
      \<Rightarrow> redis \<times> call list \<Rightarrow> (exc + pyval) \<times> redis \<times> call list" where
  "cached_analyze_email_content env lib be self email =
     cache env lib 3600 ''analyze_email_content'' (analyze_email_content_func be) [self, email] []"

definition stub_lib :: "string option \<Rightarrow> pyval option \<Rightarrow> pylib" where
  \<comment> \<open>library functions with canned answers, for concrete runs\<close>
  "stub_lib dumped loaded =
     \<lparr>float_repr = \<lambda>x. ''0.0'', json_dumps = \<lambda>v. dumped, json_loads = \<lambda>s. loaded\<rparr>"

section \<open>Prefixes and plain patterns\<close>

definition has_prefix :: "string \<Rightarrow> string \<Rightarrow> bool" where
  \<comment> \<open>the name \<open>k\<close> begins with \<open>p\<close>\<close>
  "has_prefix p k = (take (length p) k = p)"

definition glob_special :: "char set" where
  \<comment> \<open>the characters with a meaning of their own in a key pattern\<close>
  "glob_special = {CHR ''*'', CHR ''?'', CHR ''['', CHR 0x5C}"

section \<open>The scoring rule of the specification\<close>

definition occurs_in :: "string \<Rightarrow> string \<Rightarrow> bool" where
  "occurs_in w s = (\<exists>pre suf. s = pre @ w @ suf)"

definition any_occurs :: "string list \<Rightarrow> string \<Rightarrow> bool" where
  \<comment> \<open>some keyword appears in \<open>s\<close> as it stands\<close>
  "any_occurs kws s = (\<exists>w \<in> set kws. occurs_in w s)"

definition count_people :: "pyval list \<Rightarrow> nat" where
  \<comment> \<open>the number of entities labelled PERSON or ORG\<close>
  "count_people entities =
     length (filter (\<lambda>e. subscript_label e = Some (PStr ''PERSON'')
                       \<or> subscript_label e = Some (PStr ''ORG'')) entities)"

definition keyword_score :: "bool \<Rightarrow> bool \<Rightarrow> bool \<Rightarrow> rat" where
  \<comment> \<open>0.4 for the subject, 0.2 for the urgent body, 0.2 for the action body, added as floats in this order\<close>
  "keyword_score a b c =
     (let s = (if a then fadd 0 (float_lit 4 10) else 0);
          s = (if b then fadd s (float_lit 2 10) else s)
      in if c then fadd s (float_lit 2 10) else s)"

section \<open>Float literals of the source\<close>

lemma float_lit_0_5: "float_lit 5 10 = 1 / 2"
  by code_simp

lemma float_lit_0_7: "float_lit 7 10 = 3152519739159347 / 4503599627370496"
  by code_simp

lemma float_lit_0_3: "float_lit 3 10 = 5404319552844595 / 18014398509481984"
  by code_simp

lemma float_lit_0_8: "float_lit 8 10 = 3602879701896397 / 4503599627370496"
  by code_simp

lemma float_lit_0_2: "float_lit 2 10 = 3602879701896397 / 18014398509481984"
  by code_simp

lemma float_lit_0_99: "float_lit 99 100 = 4458563631096791 / 4503599627370496"
  by code_simp

section \<open>Properties of the sentiment analyzer\<close>

lemma truncated_text_take: "(if length text > 512 then take 512 text else text) = take 512 text"
  by simp

lemma lower_literals:
  "lower ''neutral'' = ''neutral''" "lower ''positive'' = ''positive''"
  "lower ''negative'' = ''negative''" "lower ''POSITIVE'' = ''positive''"
  by code_simp+

lemma float_lit_0_3_less_0_7: "float_lit 3 10 < float_lit 7 10"
  by (simp add: float_lit_0_3 float_lit_0_7)

lemma analyze_sentiment_Some:
  assumes "sentiment_model be calls (take 512 text) = Some (raw, score)"
  shows "fst (analyze_sentiment be text calls) =
      (if lower raw = ''positive'' \<or> (lower raw = ''neutral'' \<and> score > float_lit 7 10)
         then (''positive'', score)
       else if lower raw = ''negative'' \<or> (lower raw = ''neutral'' \<and> score < float_lit 3 10)
         then (''negative'', score)
       else (''neutral'', score))"
  using assms unfolding analyze_sentiment_def truncated_text_take by (simp add: Let_def)

text \<open>
  C3.  Whatever label and score the classifier gives for the first 512 characters, the
  analyzer keeps the score; a (lower-cased) label \<open>positive\<close> stays positive, \<open>negative\<close>
  stays negative, \<open>neutral\<close> becomes positive above the float 0.7 and negative below the
  float 0.3, and every other case is neutral.  The four examples of the specification
  come out as stated.
\<close>

theorem sentiment_normalization:
  assumes "sentiment_model be calls (take 512 text) = Some (raw, score)"
  shows "snd (fst (analyze_sentiment be text calls)) = score
    \<and> fst (fst (analyze_sentiment be text calls)) =
        (if lower raw = ''positive'' then ''positive''
         else if lower raw = ''negative'' then ''negative''
         else if lower raw = ''neutral'' \<and> score > float_lit 7 10 then ''positive''
         else if lower raw = ''neutral'' \<and> score < float_lit 3 10 then ''negative''
         else ''neutral'')
    \<and> fst (analyze_sentiment (be\<lparr>sentiment_model := \<lambda>h t. Some (''neutral'', float_lit 8 10)\<rparr>) text calls)
          = (''positive'', float_lit 8 10)
    \<and> fst (analyze_sentiment (be\<lparr>sentiment_model := \<lambda>h t. Some (''neutral'', float_lit 2 10)\<rparr>) text calls)
          = (''negative'', float_lit 2 10)
    \<and> fst (analyze_sentiment (be\<lparr>sentiment_model := \<lambda>h t. Some (''neutral'', float_lit 5 10)\<rparr>) text calls)
          = (''neutral'', float_lit 5 10)
    \<and> fst (analyze_sentiment (be\<lparr>sentiment_model := \<lambda>h t. Some (''positive'', float_lit 99 100)\<rparr>) text calls)
          = (''positive'', float_lit 99 100)"
proof -
  note gen = analyze_sentiment_Some [OF assms]
  have e1: "fst (analyze_sentiment (be\<lparr>sentiment_model := \<lambda>h t. Some (''neutral'', float_lit 8 10)\<rparr>) text calls)
          = (''positive'', float_lit 8 10)"
    by (subst analyze_sentiment_Some [where raw = "''neutral''" and score = "float_lit 8 10"])
       (simp_all add: lower_literals float_lit_0_8 float_lit_0_7)
  have e2: "fst (analyze_sentiment (be\<lparr>sentiment_model := \<lambda>h t. Some (''neutral'', float_lit 2 10)\<rparr>) text calls)
          = (''negative'', float_lit 2 10)"
    by (subst analyze_sentiment_Some [where raw = "''neutral''" and score = "float_lit 2 10"])
       (simp_all add: lower_literals float_lit_0_2 float_lit_0_7 float_lit_0_3)
  have e3: "fst (analyze_sentiment (be\<lparr>sentiment_model := \<lambda>h t. Some (''neutral'', float_lit 5 10)\<rparr>) text calls)
          = (''neutral'', float_lit 5 10)"
    by (subst analyze_sentiment_Some [where raw = "''neutral''" and score = "float_lit 5 10"])
       (simp_all add: lower_literals float_lit_0_5 float_lit_0_7 float_lit_0_3)
  have e4: "fst (analyze_sentiment (be\<lparr>sentiment_model := \<lambda>h t. Some (''positive'', float_lit 99 100)\<rparr>) text calls)
          = (''positive'', float_lit 99 100)"
    by (subst analyze_sentiment_Some [where raw = "''positive''" and score = "float_lit 99 100"])
       (simp_all add: lower_literals)
  from gen float_lit_0_3_less_0_7 have "snd (fst (analyze_sentiment be text calls)) = score" by simp
  moreover from gen float_lit_0_3_less_0_7 have "fst (fst (analyze_sentiment be text calls)) =
        (if lower raw = ''positive'' then ''positive''
         else if lower raw = ''negative'' then ''negative''
         else if lower raw = ''neutral'' \<and> score > float_lit 7 10 then ''positive''
         else if lower raw = ''neutral'' \<and> score < float_lit 3 10 then ''negative''
         else ''neutral'')" by auto
  ultimately show ?thesis using e1 e2 e3 e4 by blast
qed

theorem sentiment_normalization_witness:
  "snd (fst (analyze_sentiment
       \<lparr>chat_create = \<lambda>h r. None, summarize_chain = \<lambda>h t. None,
        sentiment_model = \<lambda>h t. Some (''POSITIVE'', 1 / 4), nlp = \<lambda>h t. None\<rparr>
       ''great news'' [])) = 1 / 4
   \<and> fst (fst (analyze_sentiment
       \<lparr>chat_create = \<lambda>h r. None, summarize_chain = \<lambda>h t. None,
        sentiment_model = \<lambda>h t. Some (''POSITIVE'', 1 / 4), nlp = \<lambda>h t. None\<rparr>
       ''great news'' [])) = ''positive''"
  using sentiment_normalization [of
       "\<lparr>chat_create = \<lambda>h r. None, summarize_chain = \<lambda>h t. None,
        sentiment_model = \<lambda>h t. Some (''POSITIVE'', 1 / 4), nlp = \<lambda>h t. None\<rparr>"
       "[]" "''great news''" "''POSITIVE''" "1 / 4"]
  by (simp add: lower_literals)

section \<open>Line parsing of the action-item and topic extractors\<close>

lemma startswith_take: "startswith s p = (take (length p) s = p)"
  by (induction s p rule: startswith.induct) auto

lemma fold_collect:
  "fold (\<lambda>line acc.
           let line = strip line in
           if line \<noteq> [] \<and> (startswith line ''-'' \<or> startswith line ''*''
                 \<or> list_ex is_digit (take 2 line))
           then (let item = lstrip_chars ''-*0123456789. '' line in
                 if item \<noteq> [] then acc @ [item] else acc)
           else acc) ls acc
   = acc @ filter (\<lambda>item. item \<noteq> [])
       (map (lstrip_chars ''-*0123456789. '') (filter accepted_line (map strip ls)))"
  by (induction ls arbitrary: acc) (simp_all add: Let_def accepted_line_def startswith_take)

lemma item_lines_example:
  "item_lines (''- Send the report'' @ [CHR 0x0A] @ ''2. Call client'' @ [CHR 0x0A] @ ''Not a bullet'')
     = [''Send the report'', ''Call client'']"
  by code_simp

text \<open>
  C7.  Both extractors parse the (trimmed) answer of the model by the same rule: split
  into lines, trim each line, keep a line that is non-empty and starts with \<open>-\<close> or
  \<open>*\<close> or has a digit among its first two characters, strip the leading characters
  \<open>-*0123456789. \<close> from it and drop what became empty.  The example of the
  specification yields the two items.
\<close>

theorem line_parsing_rule:
  assumes "\<And>req. chat_create be calls req = Some out"
  shows "fst (extract_action_items be text calls) = item_lines (strip out)
    \<and> fst (extract_topics be text calls) = item_lines (strip out)
    \<and> item_lines (''- Send the report'' @ [CHR 0x0A] @ ''2. Call client'' @ [CHR 0x0A] @ ''Not a bullet'')
        = [''Send the report'', ''Call client'']"
proof -
  have a: "fst (extract_action_items be text calls) = item_lines (strip out)"
    unfolding extract_action_items_def Let_def
    by (simp add: assms fold_collect [unfolded Let_def] item_lines_def)
  have t: "fst (extract_topics be text calls) = item_lines (strip out)"
    unfolding extract_topics_def Let_def
    by (simp add: assms fold_collect [unfolded Let_def] item_lines_def)
  from a t item_lines_example show ?thesis by blast
qed

theorem line_parsing_rule_witness:
  "fst (extract_action_items
       \<lparr>chat_create = \<lambda>h r. Some ''* Reply to Bob'', summarize_chain = \<lambda>h t. None,
        sentiment_model = \<lambda>h t. None, nlp = \<lambda>h t. None\<rparr> ''Hello'' []) = [''Reply to Bob'']
   \<and> fst (extract_topics
       \<lparr>chat_create = \<lambda>h r. Some ''* Reply to Bob'', summarize_chain = \<lambda>h t. None,
        sentiment_model = \<lambda>h t. None, nlp = \<lambda>h t. None\<rparr> ''Hello'' []) = [''Reply to Bob'']"
proof -
  have v: "item_lines (strip ''* Reply to Bob'') = [''Reply to Bob'']"
    by code_simp
  show ?thesis
    using line_parsing_rule [of
       "\<lparr>chat_create = \<lambda>h r. Some ''* Reply to Bob'', summarize_chain = \<lambda>h t. None,
        sentiment_model = \<lambda>h t. None, nlp = \<lambda>h t. None\<rparr>" "[]" "''* Reply to Bob''" "''Hello''"]
    by (simp add: v)
qed

section \<open>The empty-body path of the orchestrator\<close>

lemma analyze_falsy_body:
  assumes "\<not> truthy (dict_get email ''body'' (PStr []))"
  shows "analyze_email_content be email calls =
     (Some (PDict [(''summary'', PStr ''No content to analyze''),
                   (''sentiment'', PStr ''neutral''),
                   (''entities'', PList []),
                   (''categories'', PList []),
                   (''importance_score'', PFloat 0),
                   (''action_items'', PList []),
                   (''topics'', PList [])]), calls)"
  using assms unfolding analyze_email_content_def Let_def by simp

text \<open>
  C1.  When the email has no \<open>body\<close> key or its body is the empty string, the
  orchestrator returns exactly the default dict: summary "No content to analyze",
  sentiment "neutral", empty entities, categories, action items and topics, importance
  score 0.0 and no \<open>sentiment_score\<close> key.  The call log comes back unchanged: no
  backend was called, whatever the backends are.
\<close>

theorem empty_body_default:
  assumes "map_of email ''body'' = None \<or> map_of email ''body'' = Some (PStr [])"
  shows "\<exists>result. analyze_email_content be email calls = (Some (PDict result), calls)
     \<and> result = [(''summary'', PStr ''No content to analyze''),
                  (''sentiment'', PStr ''neutral''),
                  (''entities'', PList []),
                  (''categories'', PList []),
                  (''importance_score'', PFloat 0),
                  (''action_items'', PList []),
                  (''topics'', PList [])]
     \<and> map_of result ''sentiment_score'' = None"
proof -
  from assms have "\<not> truthy (dict_get email ''body'' (PStr []))"
    by auto
  from analyze_falsy_body [OF this] show ?thesis
    by simp
qed

theorem empty_body_default_witness:
  "analyze_email_content (fixed_backends (Some ''- call Bob'') (Some (''POSITIVE'', 1)))
       [(''id'', PStr ''m1''), (''subject'', PStr ''Hello''), (''body'', PStr [])]
       [SentimentCall ''earlier'']
     = (Some (PDict [(''summary'', PStr ''No content to analyze''),
                  (''sentiment'', PStr ''neutral''),
                  (''entities'', PList []),
                  (''categories'', PList []),
                  (''importance_score'', PFloat 0),
                  (''action_items'', PList []),
                  (''topics'', PList [])]), [SentimentCall ''earlier''])"
  using empty_body_default [of
       "[(''id'', PStr ''m1''), (''subject'', PStr ''Hello''), (''body'', PStr [])]"
       "fixed_backends (Some ''- call Bob'') (Some (''POSITIVE'', 1))" "[SentimentCall ''earlier'']"]
  by simp

section \<open>The categorizer\<close>

lemma split_on_not_Nil: "split_on sep s \<noteq> []"
  by (induction s) (auto split: list.splits)

lemma split_on_no_sep: "f \<in> set (split_on sep s) \<Longrightarrow> sep \<notin> set f"
proof (induction s arbitrary: f)
  case Nil
  then show ?case by simp
next
  case (Cons c cs)
  obtain g gs where g: "split_on sep cs = g # gs"
    using split_on_not_Nil [of sep cs] by (cases "split_on sep cs") auto
  with Cons show ?case
    by (auto split: if_splits)
qed

lemma set_strip: "set (strip s) \<subseteq> set s"
proof -
  have "set (dropWhile is_space (rev (dropWhile is_space s))) \<subseteq> set (rev (dropWhile is_space s))"
    by (rule set_dropWhileD [THEN subsetI])
  also have "\<dots> \<subseteq> set s"
    using set_dropWhileD [of _ is_space s] by auto
  finally show ?thesis by (simp add: strip_def)
qed

lemma categorize_email_Some:
  assumes "\<And>req. chat_create be calls req = Some content"
  shows "fst (categorize_email be subject text calls)
       = filter (\<lambda>c. c \<noteq> []) (map strip (split_on CHR '','' content))"
proof -
  have "concat (map (\<lambda>cat. if strip cat \<noteq> [] then [strip cat] else []) fs)
      = filter (\<lambda>c. c \<noteq> []) (map strip fs)" for fs
    by (induction fs) simp_all
  then show ?thesis
    unfolding categorize_email_def Let_def by (simp add: assms)
qed

lemma categorize_email_None:
  assumes "\<And>req. chat_create be calls req = None"
  shows "fst (categorize_email be subject text calls) = [''Uncategorized'']"
  unfolding categorize_email_def Let_def by (simp add: assms)

lemma categorize_email_spam:
  "fst (categorize_email (fixed_backends (Some ''Spam, Urgent'') None) ''Hi'' ''Buy now'' [])
     = [''Spam'', ''Urgent'']"
proof -
  have "filter (\<lambda>c. c \<noteq> []) (map strip (split_on CHR '','' ''Spam, Urgent'')) = [''Spam'', ''Urgent'']"
    by code_simp
  then show ?thesis
    by (subst categorize_email_Some [where content = "''Spam, Urgent''"])
       (simp_all add: fixed_backends_def)
qed

text \<open>
  The claim C8 as stated fails: the answer of the model is not checked against the
  taxonomy, so an answer naming another label is returned as it is.
\<close>

theorem categories_in_taxonomy_counterexample:
  "''Spam'' \<in> set (fst (categorize_email (fixed_backends (Some ''Spam, Urgent'') None) ''Hi'' ''Buy now'' []))
   \<and> ''Spam'' \<notin> set taxonomy
   \<and> fst (categorize_email (fixed_backends (Some ''Spam, Urgent'') None) ''Hi'' ''Buy now'' []) \<noteq> [''Uncategorized'']"
  by (simp add: categorize_email_spam taxonomy_def)

text \<open>
  C8, amended.  When the completion call fails the categorizer returns exactly
  ["Uncategorized"].  Otherwise it returns the comma-separated pieces of the model's
  answer, trimmed, without the empty ones and in order; each is non-empty and free of
  commas, and all of them are taxonomy labels whenever every trimmed piece of the answer
  is one.  The answer itself is not validated.
\<close>

theorem categories_from_answer:
  "((\<forall>req. chat_create be calls req = None) \<longrightarrow>
       fst (categorize_email be subject text calls) = [''Uncategorized''])
   \<and> ((\<forall>req. chat_create be calls req = Some content) \<longrightarrow>
       fst (categorize_email be subject text calls)
         = filter (\<lambda>c. c \<noteq> []) (map strip (split_on CHR '','' content))
       \<and> (\<forall>c \<in> set (fst (categorize_email be subject text calls)). c \<noteq> [] \<and> CHR '','' \<notin> set c)
       \<and> (set (map strip (split_on CHR '','' content)) \<subseteq> set taxonomy \<longrightarrow>
            set (fst (categorize_email be subject text calls)) \<subseteq> set taxonomy))"
proof (intro conjI impI)
  assume "\<forall>req. chat_create be calls req = None"
  then show "fst (categorize_email be subject text calls) = [''Uncategorized'']"
    by (simp add: categorize_email_None)
next
  assume a: "\<forall>req. chat_create be calls req = Some content"
  then show eq: "fst (categorize_email be subject text calls)
         = filter (\<lambda>c. c \<noteq> []) (map strip (split_on CHR '','' content))"
    by (simp add: categorize_email_Some)
  show "\<forall>c \<in> set (fst (categorize_email be subject text calls)). c \<noteq> [] \<and> CHR '','' \<notin> set c"
  proof
    fix c assume "c \<in> set (fst (categorize_email be subject text calls))"
    with eq obtain f where f: "f \<in> set (split_on CHR '','' content)" and c: "c = strip f" "c \<noteq> []"
      by auto
    from f have "CHR '','' \<notin> set f" by (rule split_on_no_sep)
    with set_strip [of f] c show "c \<noteq> [] \<and> CHR '','' \<notin> set c" by auto
  qed
  assume "set (map strip (split_on CHR '','' content)) \<subseteq> set taxonomy"
  with eq show "set (fst (categorize_email be subject text calls)) \<subseteq> set taxonomy"
    by auto
qed

theorem categories_from_answer_witness:
  "fst (categorize_email (fixed_backends None None) ''Hi'' ''Buy now'' []) = [''Uncategorized'']
   \<and> fst (categorize_email (fixed_backends (Some ''Sales , Finance'') None) ''Hi'' ''Buy now'' [])
       = [''Sales'', ''Finance'']
   \<and> set (fst (categorize_email (fixed_backends (Some ''Sales , Finance'') None) ''Hi'' ''Buy now'' []))
       \<subseteq> set taxonomy"
proof -
  have v: "filter (\<lambda>c. c \<noteq> []) (map strip (split_on CHR '','' ''Sales , Finance'')) = [''Sales'', ''Finance'']"
    by code_simp
  have w: "set (map strip (split_on CHR '','' ''Sales , Finance'')) \<subseteq> set taxonomy"
    by code_simp
  have n: "\<forall>req. chat_create (fixed_backends None None) [] req = None"
    by (simp add: fixed_backends_def)
  have s: "\<forall>req. chat_create (fixed_backends (Some ''Sales , Finance'') None) [] req = Some ''Sales , Finance''"
    by (simp add: fixed_backends_def)
  note n1 = categories_from_answer [of "fixed_backends None None" "[]" "''Hi''" "''Buy now''" "[]",
      THEN conjunct1, THEN mp, OF n]
  note s1 = categories_from_answer [of "fixed_backends (Some ''Sales , Finance'') None" "[]" "''Hi''"
      "''Buy now''" "''Sales , Finance''", THEN conjunct2, THEN mp, OF s]
  from s1 [THEN conjunct1] v
  have 2: "fst (categorize_email (fixed_backends (Some ''Sales , Finance'') None) ''Hi'' ''Buy now'' [])
       = [''Sales'', ''Finance'']"
    by (rule trans)
  from s1 [THEN conjunct2, THEN conjunct2] w
  have 3: "set (fst (categorize_email (fixed_backends (Some ''Sales , Finance'') None) ''Hi'' ''Buy now'' []))
       \<subseteq> set taxonomy"
    by (rule mp)
  from n1 2 3 show ?thesis by (intro conjI)
qed

section \<open>Evaluating MD5\<close>

lemma fold_upt_step: "i < j \<Longrightarrow> fold f [i..<j] s = fold f [Suc i..<j] (f i s)"
  by (simp add: upt_rec)

lemma replicate_numeral_unfold: "replicate (numeral k) x = x # replicate (pred_numeral k) x"
  by (simp add: numeral_eq_Suc)

lemma chunks_numeral: "chunks (numeral k) n xs = take n xs # chunks (pred_numeral k) n (drop n xs)"
  by (simp add: numeral_eq_Suc)

lemma md5_state_fold:
  "md5_state bs = fold (\<lambda>M h. md5_block h M)
     (map md5_words (chunks (length (md5_pad bs) div 64) 64 (md5_pad bs))) md5_init"
  by (simp add: md5_state_def Let_def fold_map comp_def)

text \<open>A test vector of RFC 1321, then the digests of the key strings used below.\<close>

lemma md5_abc_bytes:
  "encode_utf8 (''abc'') =
     [97, 98, 99]"
  by (simp add: encode_utf8_def)

lemma md5_abc_pad:
  "md5_pad
     [97, 98, 99] =
     [97, 98, 99, 128, 0, 0, 0, 0, 0, 0, 0, 0, 0, 0, 0, 0, 0, 0, 0, 0, 0, 0, 0, 0, 0, 0, 0, 0, 0, 0,
      0, 0, 0, 0, 0, 0, 0, 0, 0, 0, 0, 0, 0, 0, 0, 0, 0, 0, 0, 0, 0, 0, 0, 0, 0, 0, 24, 0, 0, 0, 0,
      0, 0, 0]"
  by (simp add: md5_pad_def upt_rec replicate_numeral_unfold)

lemma md5_abc_words:
  "map md5_words (chunks (length
     [97, 98, 99, 128, 0, 0, 0, 0, 0, 0, 0, 0, 0, 0, 0, 0, 0, 0, 0, 0, 0, 0, 0, 0, 0, 0, 0, 0, 0, 0,
      0, 0, 0, 0, 0, 0, 0, 0, 0, 0, 0, 0, 0, 0, 0, 0, 0, 0, 0, 0, 0, 0, 0, 0, 0, 0, 24, 0, 0, 0, 0,
      0, 0, 0] div 64) 64
     [97, 98, 99, 128, 0, 0, 0, 0, 0, 0, 0, 0, 0, 0, 0, 0, 0, 0, 0, 0, 0, 0, 0, 0, 0, 0, 0, 0, 0, 0,
      0, 0, 0, 0, 0, 0, 0, 0, 0, 0, 0, 0, 0, 0, 0, 0, 0, 0, 0, 0, 0, 0, 0, 0, 0, 0, 24, 0, 0, 0, 0,
      0, 0, 0]) =
     [[2153996897, 0, 0, 0, 0, 0, 0, 0, 0, 0, 0, 0, 0, 0, 24, 0]]"
  by (simp add: md5_words_def chunks_numeral)

lemma md5_abc_block0:
  "md5_block (1732584193, 4023233417, 2562383102, 271733878)
     [2153996897, 0, 0, 0, 0, 0, 0, 0, 0, 0, 0, 0, 0, 0, 24, 0] =
     (2555380112, 2958021180, 2101319382, 1920983336)"
  by (simp add: md5_block_def fold_upt_step md5_step_def md5_K_def md5_S_def rotl32_def)

lemma md5_abc_hex:
  "concat (map hex_byte (concat (map word_bytes [2555380112, 2958021180, 2101319382, 1920983336]))) =
     ''900150983cd24fb0d6963f7d28e17f72''"
  by (simp add: hex_byte_def word_bytes_def upt_rec)

lemma md5_abc_md5:
  "md5_hexdigest (encode_utf8 (''abc'')) =
     ''900150983cd24fb0d6963f7d28e17f72''"
  unfolding md5_hexdigest_def md5_state_fold md5_abc_bytes md5_abc_pad md5_abc_words
  by (simp only: fold.simps comp_apply id_apply md5_init_def md5_abc_block0 prod.case md5_abc_hex)

lemma key_ab2_bytes:
  "encode_utf8 (''op_1_2_a:1_b:2'') =
     [111, 112, 95, 49, 95, 50, 95, 97, 58, 49, 95, 98, 58, 50]"
  by (simp add: encode_utf8_def)

lemma key_ab2_pad:
  "md5_pad
     [111, 112, 95, 49, 95, 50, 95, 97, 58, 49, 95, 98, 58, 50] =
     [111, 112, 95, 49, 95, 50, 95, 97, 58, 49, 95, 98, 58, 50, 128, 0, 0, 0, 0, 0, 0, 0, 0, 0, 0, 0,
      0, 0, 0, 0, 0, 0, 0, 0, 0, 0, 0, 0, 0, 0, 0, 0, 0, 0, 0, 0, 0, 0, 0, 0, 0, 0, 0, 0, 0, 0, 112,
      0, 0, 0, 0, 0, 0, 0]"
  by (simp add: md5_pad_def upt_rec replicate_numeral_unfold)

lemma key_ab2_words:
  "map md5_words (chunks (length
     [111, 112, 95, 49, 95, 50, 95, 97, 58, 49, 95, 98, 58, 50, 128, 0, 0, 0, 0, 0, 0, 0, 0, 0, 0, 0,
      0, 0, 0, 0, 0, 0, 0, 0, 0, 0, 0, 0, 0, 0, 0, 0, 0, 0, 0, 0, 0, 0, 0, 0, 0, 0, 0, 0, 0, 0, 112,
      0, 0, 0, 0, 0, 0, 0] div 64) 64
     [111, 112, 95, 49, 95, 50, 95, 97, 58, 49, 95, 98, 58, 50, 128, 0, 0, 0, 0, 0, 0, 0, 0, 0, 0, 0,
      0, 0, 0, 0, 0, 0, 0, 0, 0, 0, 0, 0, 0, 0, 0, 0, 0, 0, 0, 0, 0, 0, 0, 0, 0, 0, 0, 0, 0, 0, 112,
      0, 0, 0, 0, 0, 0, 0]) =
     [[828338287, 1633628767, 1650405690, 8401466, 0, 0, 0, 0, 0, 0, 0, 0, 0, 0, 112, 0]]"
  by (simp add: md5_words_def chunks_numeral)

lemma key_ab2_block0:
  "md5_block (1732584193, 4023233417, 2562383102, 271733878)
     [828338287, 1633628767, 1650405690, 8401466, 0, 0, 0, 0, 0, 0, 0, 0, 0, 0, 112, 0] =
     (1855626821, 69250539, 3022642517, 364522975)"
  by (simp add: md5_block_def fold_upt_step md5_step_def md5_K_def md5_S_def rotl32_def)

lemma key_ab2_hex:
  "concat (map hex_byte (concat (map word_bytes [1855626821, 69250539, 3022642517, 364522975]))) =
     ''459e9a6eebad200455dd29b4df2dba15''"
  by (simp add: hex_byte_def word_bytes_def upt_rec)

lemma key_ab2_md5:
  "md5_hexdigest (encode_utf8 (''op_1_2_a:1_b:2'')) =
     ''459e9a6eebad200455dd29b4df2dba15''"
  unfolding md5_hexdigest_def md5_state_fold key_ab2_bytes key_ab2_pad key_ab2_words
  by (simp only: fold.simps comp_apply id_apply md5_init_def key_ab2_block0 prod.case key_ab2_hex)

lemma key_ab3_bytes:
  "encode_utf8 (''op_1_2_a:1_b:3'') =
     [111, 112, 95, 49, 95, 50, 95, 97, 58, 49, 95, 98, 58, 51]"
  by (simp add: encode_utf8_def)

lemma key_ab3_pad:
  "md5_pad
     [111, 112, 95, 49, 95, 50, 95, 97, 58, 49, 95, 98, 58, 51] =
     [111, 112, 95, 49, 95, 50, 95, 97, 58, 49, 95, 98, 58, 51, 128, 0, 0, 0, 0, 0, 0, 0, 0, 0, 0, 0,
      0, 0, 0, 0, 0, 0, 0, 0, 0, 0, 0, 0, 0, 0, 0, 0, 0, 0, 0, 0, 0, 0, 0, 0, 0, 0, 0, 0, 0, 0, 112,
      0, 0, 0, 0, 0, 0, 0]"
  by (simp add: md5_pad_def upt_rec replicate_numeral_unfold)

lemma key_ab3_words:
  "map md5_words (chunks (length
     [111, 112, 95, 49, 95, 50, 95, 97, 58, 49, 95, 98, 58, 51, 128, 0, 0, 0, 0, 0, 0, 0, 0, 0, 0, 0,
      0, 0, 0, 0, 0, 0, 0, 0, 0, 0, 0, 0, 0, 0, 0, 0, 0, 0, 0, 0, 0, 0, 0, 0, 0, 0, 0, 0, 0, 0, 112,
      0, 0, 0, 0, 0, 0, 0] div 64) 64
     [111, 112, 95, 49, 95, 50, 95, 97, 58, 49, 95, 98, 58, 51, 128, 0, 0, 0, 0, 0, 0, 0, 0, 0, 0, 0,
      0, 0, 0, 0, 0, 0, 0, 0, 0, 0, 0, 0, 0, 0, 0, 0, 0, 0, 0, 0, 0, 0, 0, 0, 0, 0, 0, 0, 0, 0, 112,
      0, 0, 0, 0, 0, 0, 0]) =
     [[828338287, 1633628767, 1650405690, 8401722, 0, 0, 0, 0, 0, 0, 0, 0, 0, 0, 112, 0]]"
  by (simp add: md5_words_def chunks_numeral)

lemma key_ab3_block0:
  "md5_block (1732584193, 4023233417, 2562383102, 271733878)
     [828338287, 1633628767, 1650405690, 8401722, 0, 0, 0, 0, 0, 0, 0, 0, 0, 0, 112, 0] =
     (2118227336, 493133215, 2276534491, 3462935655)"
  by (simp add: md5_block_def fold_upt_step md5_step_def md5_K_def md5_S_def rotl32_def)

lemma key_ab3_hex:
  "concat (map hex_byte (concat (map word_bytes [2118227336, 493133215, 2276534491, 3462935655]))) =
     ''8895417e9f9d641ddb28b187673468ce''"
  by (simp add: hex_byte_def word_bytes_def upt_rec)

lemma key_ab3_md5:
  "md5_hexdigest (encode_utf8 (''op_1_2_a:1_b:3'')) =
     ''8895417e9f9d641ddb28b187673468ce''"
  unfolding md5_hexdigest_def md5_state_fold key_ab3_bytes key_ab3_pad key_ab3_words
  by (simp only: fold.simps comp_apply id_apply md5_init_def key_ab3_block0 prod.case key_ab3_hex)

lemma key_inst1_bytes:
  "encode_utf8 (''analyze_email_content_<app.services.ai_service.AiService object at 0x7f3a1c2d5e10>_{'' @ [CHR 0x27] @ ''id'' @ [CHR 0x27] @ '': 7, '' @ [CHR 0x27] @ ''subject'' @ [CHR 0x27] @ '': '' @ [CHR 0x27] @ ''Hi'' @ [CHR 0x27] @ '', '' @ [CHR 0x27] @ ''body'' @ [CHR 0x27] @ '': '' @ [CHR 0x27] @ ''Hello'' @ [CHR 0x27] @ ''}'') =
     [97, 110, 97, 108, 121, 122, 101, 95, 101, 109, 97, 105, 108, 95, 99, 111, 110, 116, 101, 110,
      116, 95, 60, 97, 112, 112, 46, 115, 101, 114, 118, 105, 99, 101, 115, 46, 97, 105, 95, 115,
      101, 114, 118, 105, 99, 101, 46, 65, 105, 83, 101, 114, 118, 105, 99, 101, 32, 111, 98, 106,
      101, 99, 116, 32, 97, 116, 32, 48, 120, 55, 102, 51, 97, 49, 99, 50, 100, 53, 101, 49, 48, 62,
      95, 123, 39, 105, 100, 39, 58, 32, 55, 44, 32, 39, 115, 117, 98, 106, 101, 99, 116, 39, 58, 32,
      39, 72, 105, 39, 44, 32, 39, 98, 111, 100, 121, 39, 58, 32, 39, 72, 101, 108, 108, 111, 39,
      125]"
  by (simp add: encode_utf8_def)

lemma key_inst1_pad:
  "md5_pad
     [97, 110, 97, 108, 121, 122, 101, 95, 101, 109, 97, 105, 108, 95, 99, 111, 110, 116, 101, 110,
      116, 95, 60, 97, 112, 112, 46, 115, 101, 114, 118, 105, 99, 101, 115, 46, 97, 105, 95, 115,
      101, 114, 118, 105, 99, 101, 46, 65, 105, 83, 101, 114, 118, 105, 99, 101, 32, 111, 98, 106,
      101, 99, 116, 32, 97, 116, 32, 48, 120, 55, 102, 51, 97, 49, 99, 50, 100, 53, 101, 49, 48, 62,
      95, 123, 39, 105, 100, 39, 58, 32, 55, 44, 32, 39, 115, 117, 98, 106, 101, 99, 116, 39, 58, 32,
      39, 72, 105, 39, 44, 32, 39, 98, 111, 100, 121, 39, 58, 32, 39, 72, 101, 108, 108, 111, 39,
      125] =
     [97, 110, 97, 108, 121, 122, 101, 95, 101, 109, 97, 105, 108, 95, 99, 111, 110, 116, 101, 110,
      116, 95, 60, 97, 112, 112, 46, 115, 101, 114, 118, 105, 99, 101, 115, 46, 97, 105, 95, 115,
      101, 114, 118, 105, 99, 101, 46, 65, 105, 83, 101, 114, 118, 105, 99, 101, 32, 111, 98, 106,
      101, 99, 116, 32, 97, 116, 32, 48, 120, 55, 102, 51, 97, 49, 99, 50, 100, 53, 101, 49, 48, 62,
      95, 123, 39, 105, 100, 39, 58, 32, 55, 44, 32, 39, 115, 117, 98, 106, 101, 99, 116, 39, 58, 32,
      39, 72, 105, 39, 44, 32, 39, 98, 111, 100, 121, 39, 58, 32, 39, 72, 101, 108, 108, 111, 39,
      125, 128, 0, 0, 0, 0, 0, 0, 0, 0, 0, 0, 0, 0, 0, 0, 0, 0, 0, 0, 0, 0, 0, 0, 0, 0, 0, 0, 0, 0,
      0, 0, 0, 0, 0, 0, 0, 0, 0, 0, 0, 0, 0, 0, 0, 0, 0, 0, 0, 0, 0, 0, 0, 0, 0, 0, 0, 0, 0, 240, 3,
      0, 0, 0, 0, 0, 0]"
  by (simp add: md5_pad_def upt_rec replicate_numeral_unfold)

lemma key_inst1_words:
  "map md5_words (chunks (length
     [97, 110, 97, 108, 121, 122, 101, 95, 101, 109, 97, 105, 108, 95, 99, 111, 110, 116, 101, 110,
      116, 95, 60, 97, 112, 112, 46, 115, 101, 114, 118, 105, 99, 101, 115, 46, 97, 105, 95, 115,
      101, 114, 118, 105, 99, 101, 46, 65, 105, 83, 101, 114, 118, 105, 99, 101, 32, 111, 98, 106,
      101, 99, 116, 32, 97, 116, 32, 48, 120, 55, 102, 51, 97, 49, 99, 50, 100, 53, 101, 49, 48, 62,
      95, 123, 39, 105, 100, 39, 58, 32, 55, 44, 32, 39, 115, 117, 98, 106, 101, 99, 116, 39, 58, 32,
      39, 72, 105, 39, 44, 32, 39, 98, 111, 100, 121, 39, 58, 32, 39, 72, 101, 108, 108, 111, 39,
      125, 128, 0, 0, 0, 0, 0, 0, 0, 0, 0, 0, 0, 0, 0, 0, 0, 0, 0, 0, 0, 0, 0, 0, 0, 0, 0, 0, 0, 0,
      0, 0, 0, 0, 0, 0, 0, 0, 0, 0, 0, 0, 0, 0, 0, 0, 0, 0, 0, 0, 0, 0, 0, 0, 0, 0, 0, 0, 0, 240, 3,
      0, 0, 0, 0, 0, 0] div 64) 64
     [97, 110, 97, 108, 121, 122, 101, 95, 101, 109, 97, 105, 108, 95, 99, 111, 110, 116, 101, 110,
      116, 95, 60, 97, 112, 112, 46, 115, 101, 114, 118, 105, 99, 101, 115, 46, 97, 105, 95, 115,
      101, 114, 118, 105, 99, 101, 46, 65, 105, 83, 101, 114, 118, 105, 99, 101, 32, 111, 98, 106,
      101, 99, 116, 32, 97, 116, 32, 48, 120, 55, 102, 51, 97, 49, 99, 50, 100, 53, 101, 49, 48, 62,
      95, 123, 39, 105, 100, 39, 58, 32, 55, 44, 32, 39, 115, 117, 98, 106, 101, 99, 116, 39, 58, 32,
      39, 72, 105, 39, 44, 32, 39, 98, 111, 100, 121, 39, 58, 32, 39, 72, 101, 108, 108, 111, 39,
      125, 128, 0, 0, 0, 0, 0, 0, 0, 0, 0, 0, 0, 0, 0, 0, 0, 0, 0, 0, 0, 0, 0, 0, 0, 0, 0, 0, 0, 0,
      0, 0, 0, 0, 0, 0, 0, 0, 0, 0, 0, 0, 0, 0, 0, 0, 0, 0, 0, 0, 0, 0, 0, 0, 0, 0, 0, 0, 0, 240, 3,
      0, 0, 0, 0, 0, 0]) =
     [[1818324577, 1600486009, 1767992677, 1868783468, 1852142702, 1631346548, 1932423280, 1769370213,
       779314531, 1935632737, 1769370213, 1093559651, 1919243113, 1701013878, 1784835872, 544498533],
      [807433313, 862336888, 845361505, 828716388, 2069839408, 660891943, 741810234, 1970480928,
       1667590754, 540682100, 661211175, 1646731308, 662266991, 1210523706, 1869376613, 8420647],
      [0, 0, 0, 0, 0, 0, 0, 0, 0, 0, 0, 0, 0, 0, 1008, 0]]"
  by (simp add: md5_words_def chunks_numeral)

lemma key_inst1_block0:
  "md5_block (1732584193, 4023233417, 2562383102, 271733878)
     [1818324577, 1600486009, 1767992677, 1868783468, 1852142702, 1631346548, 1932423280, 1769370213,
      779314531, 1935632737, 1769370213, 1093559651, 1919243113, 1701013878, 1784835872, 544498533] =
     (2637226776, 3006106424, 4018614120, 3074554847)"
  by (simp add: md5_block_def fold_upt_step md5_step_def md5_K_def md5_S_def rotl32_def)

lemma key_inst1_block1:
  "md5_block (2637226776, 3006106424, 4018614120, 3074554847)
     [807433313, 862336888, 845361505, 828716388, 2069839408, 660891943, 741810234, 1970480928,
      1667590754, 540682100, 661211175, 1646731308, 662266991, 1210523706, 1869376613, 8420647] =
     (2272339341, 442586885, 492334235, 1340051597)"
  by (simp add: md5_block_def fold_upt_step md5_step_def md5_K_def md5_S_def rotl32_def)

lemma key_inst1_block2:
  "md5_block (2272339341, 442586885, 492334235, 1340051597)
     [0, 0, 0, 0, 0, 0, 0, 0, 0, 0, 0, 0, 0, 0, 1008, 0] =
     (2226725377, 1839866366, 3491054653, 3218861669)"
  by (simp add: md5_block_def fold_upt_step md5_step_def md5_K_def md5_S_def rotl32_def)

lemma key_inst1_hex:
  "concat (map hex_byte (concat (map word_bytes [2226725377, 1839866366, 3491054653, 3218861669]))) =
     ''0122b984fe21aa6d3d4415d065eedbbf''"
  by (simp add: hex_byte_def word_bytes_def upt_rec)

lemma key_inst1_md5:
  "md5_hexdigest (encode_utf8 (''analyze_email_content_<app.services.ai_service.AiService object at 0x7f3a1c2d5e10>_{'' @ [CHR 0x27] @ ''id'' @ [CHR 0x27] @ '': 7, '' @ [CHR 0x27] @ ''subject'' @ [CHR 0x27] @ '': '' @ [CHR 0x27] @ ''Hi'' @ [CHR 0x27] @ '', '' @ [CHR 0x27] @ ''body'' @ [CHR 0x27] @ '': '' @ [CHR 0x27] @ ''Hello'' @ [CHR 0x27] @ ''}'')) =
     ''0122b984fe21aa6d3d4415d065eedbbf''"
  unfolding md5_hexdigest_def md5_state_fold key_inst1_bytes key_inst1_pad key_inst1_words
  by (simp only: fold.simps comp_apply id_apply md5_init_def key_inst1_block0 key_inst1_block1 key_inst1_block2 prod.case key_inst1_hex)

lemma key_inst2_bytes:
  "encode_utf8 (''analyze_email_content_<app.services.ai_service.AiService object at 0x7f3a1c2d6f40>_{'' @ [CHR 0x27] @ ''id'' @ [CHR 0x27] @ '': 7, '' @ [CHR 0x27] @ ''subject'' @ [CHR 0x27] @ '': '' @ [CHR 0x27] @ ''Hi'' @ [CHR 0x27] @ '', '' @ [CHR 0x27] @ ''body'' @ [CHR 0x27] @ '': '' @ [CHR 0x27] @ ''Hello'' @ [CHR 0x27] @ ''}'') =
     [97, 110, 97, 108, 121, 122, 101, 95, 101, 109, 97, 105, 108, 95, 99, 111, 110, 116, 101, 110,
      116, 95, 60, 97, 112, 112, 46, 115, 101, 114, 118, 105, 99, 101, 115, 46, 97, 105, 95, 115,
      101, 114, 118, 105, 99, 101, 46, 65, 105, 83, 101, 114, 118, 105, 99, 101, 32, 111, 98, 106,
      101, 99, 116, 32, 97, 116, 32, 48, 120, 55, 102, 51, 97, 49, 99, 50, 100, 54, 102, 52, 48, 62,
      95, 123, 39, 105, 100, 39, 58, 32, 55, 44, 32, 39, 115, 117, 98, 106, 101, 99, 116, 39, 58, 32,
      39, 72, 105, 39, 44, 32, 39, 98, 111, 100, 121, 39, 58, 32, 39, 72, 101, 108, 108, 111, 39,
      125]"
  by (simp add: encode_utf8_def)

lemma key_inst2_pad:
  "md5_pad
     [97, 110, 97, 108, 121, 122, 101, 95, 101, 109, 97, 105, 108, 95, 99, 111, 110, 116, 101, 110,
      116, 95, 60, 97, 112, 112, 46, 115, 101, 114, 118, 105, 99, 101, 115, 46, 97, 105, 95, 115,
      101, 114, 118, 105, 99, 101, 46, 65, 105, 83, 101, 114, 118, 105, 99, 101, 32, 111, 98, 106,
      101, 99, 116, 32, 97, 116, 32, 48, 120, 55, 102, 51, 97, 49, 99, 50, 100, 54, 102, 52, 48, 62,
      95, 123, 39, 105, 100, 39, 58, 32, 55, 44, 32, 39, 115, 117, 98, 106, 101, 99, 116, 39, 58, 32,
      39, 72, 105, 39, 44, 32, 39, 98, 111, 100, 121, 39, 58, 32, 39, 72, 101, 108, 108, 111, 39,
      125] =
     [97, 110, 97, 108, 121, 122, 101, 95, 101, 109, 97, 105, 108, 95, 99, 111, 110, 116, 101, 110,
      116, 95, 60, 97, 112, 112, 46, 115, 101, 114, 118, 105, 99, 101, 115, 46, 97, 105, 95, 115,
      101, 114, 118, 105, 99, 101, 46, 65, 105, 83, 101, 114, 118, 105, 99, 101, 32, 111, 98, 106,
      101, 99, 116, 32, 97, 116, 32, 48, 120, 55, 102, 51, 97, 49, 99, 50, 100, 54, 102, 52, 48, 62,
      95, 123, 39, 105, 100, 39, 58, 32, 55, 44, 32, 39, 115, 117, 98, 106, 101, 99, 116, 39, 58, 32,
      39, 72, 105, 39, 44, 32, 39, 98, 111, 100, 121, 39, 58, 32, 39, 72, 101, 108, 108, 111, 39,
      125, 128, 0, 0, 0, 0, 0, 0, 0, 0, 0, 0, 0, 0, 0, 0, 0, 0, 0, 0, 0, 0, 0, 0, 0, 0, 0, 0, 0, 0,
      0, 0, 0, 0, 0, 0, 0, 0, 0, 0, 0, 0, 0, 0, 0, 0, 0, 0, 0, 0, 0, 0, 0, 0, 0, 0, 0, 0, 0, 240, 3,
      0, 0, 0, 0, 0, 0]"
  by (simp add: md5_pad_def upt_rec replicate_numeral_unfold)

lemma key_inst2_words:
  "map md5_words (chunks (length
     [97, 110, 97, 108, 121, 122, 101, 95, 101, 109, 97, 105, 108, 95, 99, 111, 110, 116, 101, 110,
      116, 95, 60, 97, 112, 112, 46, 115, 101, 114, 118, 105, 99, 101, 115, 46, 97, 105, 95, 115,
      101, 114, 118, 105, 99, 101, 46, 65, 105, 83, 101, 114, 118, 105, 99, 101, 32, 111, 98, 106,
      101, 99, 116, 32, 97, 116, 32, 48, 120, 55, 102, 51, 97, 49, 99, 50, 100, 54, 102, 52, 48, 62,
      95, 123, 39, 105, 100, 39, 58, 32, 55, 44, 32, 39, 115, 117, 98, 106, 101, 99, 116, 39, 58, 32,
      39, 72, 105, 39, 44, 32, 39, 98, 111, 100, 121, 39, 58, 32, 39, 72, 101, 108, 108, 111, 39,
      125, 128, 0, 0, 0, 0, 0, 0, 0, 0, 0, 0, 0, 0, 0, 0, 0, 0, 0, 0, 0, 0, 0, 0, 0, 0, 0, 0, 0, 0,
      0, 0, 0, 0, 0, 0, 0, 0, 0, 0, 0, 0, 0, 0, 0, 0, 0, 0, 0, 0, 0, 0, 0, 0, 0, 0, 0, 0, 0, 240, 3,
      0, 0, 0, 0, 0, 0] div 64) 64
     [97, 110, 97, 108, 121, 122, 101, 95, 101, 109, 97, 105, 108, 95, 99, 111, 110, 116, 101, 110,
      116, 95, 60, 97, 112, 112, 46, 115, 101, 114, 118, 105, 99, 101, 115, 46, 97, 105, 95, 115,
      101, 114, 118, 105, 99, 101, 46, 65, 105, 83, 101, 114, 118, 105, 99, 101, 32, 111, 98, 106,
      101, 99, 116, 32, 97, 116, 32, 48, 120, 55, 102, 51, 97, 49, 99, 50, 100, 54, 102, 52, 48, 62,
      95, 123, 39, 105, 100, 39, 58, 32, 55, 44, 32, 39, 115, 117, 98, 106, 101, 99, 116, 39, 58, 32,
      39, 72, 105, 39, 44, 32, 39, 98, 111, 100, 121, 39, 58, 32, 39, 72, 101, 108, 108, 111, 39,
      125, 128, 0, 0, 0, 0, 0, 0, 0, 0, 0, 0, 0, 0, 0, 0, 0, 0, 0, 0, 0, 0, 0, 0, 0, 0, 0, 0, 0, 0,
      0, 0, 0, 0, 0, 0, 0, 0, 0, 0, 0, 0, 0, 0, 0, 0, 0, 0, 0, 0, 0, 0, 0, 0, 0, 0, 0, 0, 0, 240, 3,
      0, 0, 0, 0, 0, 0]) =
     [[1818324577, 1600486009, 1767992677, 1868783468, 1852142702, 1631346548, 1932423280, 1769370213,
       779314531, 1935632737, 1769370213, 1093559651, 1919243113, 1701013878, 1784835872, 544498533],
      [807433313, 862336888, 845361505, 879113828, 2069839408, 660891943, 741810234, 1970480928,
       1667590754, 540682100, 661211175, 1646731308, 662266991, 1210523706, 1869376613, 8420647],
      [0, 0, 0, 0, 0, 0, 0, 0, 0, 0, 0, 0, 0, 0, 1008, 0]]"
  by (simp add: md5_words_def chunks_numeral)

lemma key_inst2_block1:
  "md5_block (2637226776, 3006106424, 4018614120, 3074554847)
     [807433313, 862336888, 845361505, 879113828, 2069839408, 660891943, 741810234, 1970480928,
      1667590754, 540682100, 661211175, 1646731308, 662266991, 1210523706, 1869376613, 8420647] =
     (1912893594, 1749602766, 3084268561, 95160678)"
  by (simp add: md5_block_def fold_upt_step md5_step_def md5_K_def md5_S_def rotl32_def)

lemma key_inst2_block2:
  "md5_block (1912893594, 1749602766, 3084268561, 95160678)
     [0, 0, 0, 0, 0, 0, 0, 0, 0, 0, 0, 0, 0, 0, 1008, 0] =
     (2442081948, 2907894821, 4070414717, 3877056321)"
  by (simp add: md5_block_def fold_upt_step md5_step_def md5_K_def md5_S_def rotl32_def)

lemma key_inst2_hex:
  "concat (map hex_byte (concat (map word_bytes [2442081948, 2907894821, 4070414717, 3877056321]))) =
     ''9c368f9125f452ad7d999df2412f17e7''"
  by (simp add: hex_byte_def word_bytes_def upt_rec)

lemma key_inst2_md5:
  "md5_hexdigest (encode_utf8 (''analyze_email_content_<app.services.ai_service.AiService object at 0x7f3a1c2d6f40>_{'' @ [CHR 0x27] @ ''id'' @ [CHR 0x27] @ '': 7, '' @ [CHR 0x27] @ ''subject'' @ [CHR 0x27] @ '': '' @ [CHR 0x27] @ ''Hi'' @ [CHR 0x27] @ '', '' @ [CHR 0x27] @ ''body'' @ [CHR 0x27] @ '': '' @ [CHR 0x27] @ ''Hello'' @ [CHR 0x27] @ ''}'')) =
     ''9c368f9125f452ad7d999df2412f17e7''"
  unfolding md5_hexdigest_def md5_state_fold key_inst2_bytes key_inst2_pad key_inst2_words
  by (simp only: fold.simps comp_apply id_apply md5_init_def key_inst1_block0 key_inst2_block1 key_inst2_block2 prod.case key_inst2_hex)

section \<open>Cache keys\<close>

lemma sort_key_permutation:
  assumes "distinct (map f xs)" and "mset ys = mset xs"
  shows "sort_key f ys = sort_key f xs"
proof -
  from assms(1) have "inj_on f (set xs)"
    by (simp add: distinct_map)
  with assms(2) show ?thesis
    by (metis sort_key_eq_sort_key mset_eq_setD)
qed

lemma key_string_ab2:
  "cache_key_string lib ''op'' [PInt 1, PInt 2] [(''a'', PInt 1), (''b'', PInt 2)] = ''op_1_2_a:1_b:2''"
  by (simp add: cache_key_string_def py_str_def int_str_def)

lemma key_string_ab3:
  "cache_key_string lib ''op'' [PInt 1, PInt 2] [(''a'', PInt 1), (''b'', PInt 3)] = ''op_1_2_a:1_b:3''"
  by (simp add: cache_key_string_def py_str_def int_str_def)

lemma key_string_inst1:
  "cache_key_string lib ''analyze_email_content''
     [PObj ''app.services.ai_service.AiService'' 0x7f3a1c2d5e10,
      PDict [(''id'', PInt 7), (''subject'', PStr ''Hi''), (''body'', PStr ''Hello'')]] []
   = ''analyze_email_content_<app.services.ai_service.AiService object at 0x7f3a1c2d5e10>_{'' @ [CHR 0x27] @ ''id'' @ [CHR 0x27] @ '': 7, '' @ [CHR 0x27] @ ''subject'' @ [CHR 0x27] @ '': '' @ [CHR 0x27] @ ''Hi'' @ [CHR 0x27] @ '', '' @ [CHR 0x27] @ ''body'' @ [CHR 0x27] @ '': '' @ [CHR 0x27] @ ''Hello'' @ [CHR 0x27] @ ''}''"
  by (simp add: cache_key_string_def py_str_def int_str_def str_repr_def repr_char_def is_printable_def Let_def)

lemma key_string_inst2:
  "cache_key_string lib ''analyze_email_content''
     [PObj ''app.services.ai_service.AiService'' 0x7f3a1c2d6f40,
      PDict [(''id'', PInt 7), (''subject'', PStr ''Hi''), (''body'', PStr ''Hello'')]] []
   = ''analyze_email_content_<app.services.ai_service.AiService object at 0x7f3a1c2d6f40>_{'' @ [CHR 0x27] @ ''id'' @ [CHR 0x27] @ '': 7, '' @ [CHR 0x27] @ ''subject'' @ [CHR 0x27] @ '': '' @ [CHR 0x27] @ ''Hi'' @ [CHR 0x27] @ '', '' @ [CHR 0x27] @ ''body'' @ [CHR 0x27] @ '': '' @ [CHR 0x27] @ ''Hello'' @ [CHR 0x27] @ ''}''"
  by (simp add: cache_key_string_def py_str_def int_str_def str_repr_def repr_char_def is_printable_def Let_def)

text \<open>
  C5.  The key does not depend on the order in which the keyword arguments were
  supplied: a dict with the same items in another insertion order gives the same key,
  for every function name and positional arguments.  \<open>key(op, [1,2], {a:1,b:2})\<close> equals
  \<open>key(op, [1,2], {b:2,a:1})\<close> and differs from \<open>key(op, [1,2], {a:1,b:3})\<close>.
\<close>

theorem cache_key_keyword_order:
  assumes "distinct (map fst kwargs)" and "mset kwargs' = mset kwargs"
  shows "generate_cache_key lib func_name args kwargs' = generate_cache_key lib func_name args kwargs
    \<and> generate_cache_key lib ''op'' [PInt 1, PInt 2] [(''a'', PInt 1), (''b'', PInt 2)]
        = generate_cache_key lib ''op'' [PInt 1, PInt 2] [(''b'', PInt 2), (''a'', PInt 1)]
    \<and> generate_cache_key lib ''op'' [PInt 1, PInt 2] [(''a'', PInt 1), (''b'', PInt 2)]
        \<noteq> generate_cache_key lib ''op'' [PInt 1, PInt 2] [(''a'', PInt 1), (''b'', PInt 3)]"
proof -
  have perm: "generate_cache_key lib f as kw' = generate_cache_key lib f as kw"
    if "distinct (map fst kw)" and "mset kw' = mset kw" for f as kw kw'
    using sort_key_permutation [OF that]
    by (simp add: generate_cache_key_def cache_key_string_def)
  have ex1: "generate_cache_key lib ''op'' [PInt 1, PInt 2] [(''a'', PInt 1), (''b'', PInt 2)]
        = generate_cache_key lib ''op'' [PInt 1, PInt 2] [(''b'', PInt 2), (''a'', PInt 1)]"
    by (rule perm) simp_all
  have k2: "generate_cache_key lib ''op'' [PInt 1, PInt 2] [(''a'', PInt 1), (''b'', PInt 2)]
        = ''intellimail:cache:'' @ ''459e9a6eebad200455dd29b4df2dba15''"
    by (simp only: generate_cache_key_def key_string_ab2 key_ab2_md5)
  have k3: "generate_cache_key lib ''op'' [PInt 1, PInt 2] [(''a'', PInt 1), (''b'', PInt 3)]
        = ''intellimail:cache:'' @ ''8895417e9f9d641ddb28b187673468ce''"
    by (simp only: generate_cache_key_def key_string_ab3 key_ab3_md5)
  have ex2: "generate_cache_key lib ''op'' [PInt 1, PInt 2] [(''a'', PInt 1), (''b'', PInt 2)]
        \<noteq> generate_cache_key lib ''op'' [PInt 1, PInt 2] [(''a'', PInt 1), (''b'', PInt 3)]"
    unfolding k2 k3 by simp
  from perm [OF assms] ex1 ex2 show ?thesis by (intro conjI)
qed

theorem cache_key_keyword_order_witness:
  "distinct (map fst [(''user'', PStr ''ann''), (''page'', PInt 2)])
   \<and> mset [(''page'', PInt 2), (''user'', PStr ''ann'')] = mset [(''user'', PStr ''ann''), (''page'', PInt 2)]
   \<and> generate_cache_key (stub_lib None None) ''list_emails'' [PInt 5] [(''page'', PInt 2), (''user'', PStr ''ann'')]
       = generate_cache_key (stub_lib None None) ''list_emails'' [PInt 5] [(''user'', PStr ''ann''), (''page'', PInt 2)]"
proof -
  have d: "distinct (map fst [(''user'', PStr ''ann''), (''page'', PInt 2)])"
    by simp
  have m: "mset [(''page'', PInt 2), (''user'', PStr ''ann'')] = mset [(''user'', PStr ''ann''), (''page'', PInt 2)]"
    by simp
  from cache_key_keyword_order [OF d m, of "(stub_lib None None)" "''list_emails''" "[PInt 5]", THEN conjunct1] d m
  show ?thesis by (intro conjI)
qed

text \<open>
  C4.  The key of the cached orchestration is meant to identify the email.  The code
  derives it from the string form of every positional argument of the wrapped method,
  \<open>self\<close> included, and an \<open>AiService\<close> prints with its address.  Two service
  instances that are alive at the same time, at the addresses 0x7f3a1c2d5e10 and
  0x7f3a1c2d6f40, derive the two different keys below for the same email
  \<open>{'id': 7, 'subject': 'Hi', 'body': 'Hello'}\<close>.
\<close>

theorem cache_key_differs_across_instances:
  "generate_cache_key (stub_lib None None) ''analyze_email_content''
     [PObj ''app.services.ai_service.AiService'' 0x7f3a1c2d5e10,
      PDict [(''id'', PInt 7), (''subject'', PStr ''Hi''), (''body'', PStr ''Hello'')]] []
     = ''intellimail:cache:'' @ ''0122b984fe21aa6d3d4415d065eedbbf''
   \<and> generate_cache_key (stub_lib None None) ''analyze_email_content''
     [PObj ''app.services.ai_service.AiService'' 0x7f3a1c2d6f40,
      PDict [(''id'', PInt 7), (''subject'', PStr ''Hi''), (''body'', PStr ''Hello'')]] []
     = ''intellimail:cache:'' @ ''9c368f9125f452ad7d999df2412f17e7''
   \<and> generate_cache_key (stub_lib None None) ''analyze_email_content''
     [PObj ''app.services.ai_service.AiService'' 0x7f3a1c2d5e10,
      PDict [(''id'', PInt 7), (''subject'', PStr ''Hi''), (''body'', PStr ''Hello'')]] []
   \<noteq> generate_cache_key (stub_lib None None) ''analyze_email_content''
     [PObj ''app.services.ai_service.AiService'' 0x7f3a1c2d6f40,
      PDict [(''id'', PInt 7), (''subject'', PStr ''Hi''), (''body'', PStr ''Hello'')]] []"
proof -
  have k1: "generate_cache_key (stub_lib None None) ''analyze_email_content''
     [PObj ''app.services.ai_service.AiService'' 0x7f3a1c2d5e10,
      PDict [(''id'', PInt 7), (''subject'', PStr ''Hi''), (''body'', PStr ''Hello'')]] []
     = ''intellimail:cache:'' @ ''0122b984fe21aa6d3d4415d065eedbbf''"
    by (simp only: generate_cache_key_def key_string_inst1 key_inst1_md5)
  have k2: "generate_cache_key (stub_lib None None) ''analyze_email_content''
     [PObj ''app.services.ai_service.AiService'' 0x7f3a1c2d6f40,
      PDict [(''id'', PInt 7), (''subject'', PStr ''Hi''), (''body'', PStr ''Hello'')]] []
     = ''intellimail:cache:'' @ ''9c368f9125f452ad7d999df2412f17e7''"
    by (simp only: generate_cache_key_def key_string_inst2 key_inst2_md5)
  have ne: "generate_cache_key (stub_lib None None) ''analyze_email_content''
     [PObj ''app.services.ai_service.AiService'' 0x7f3a1c2d5e10,
      PDict [(''id'', PInt 7), (''subject'', PStr ''Hi''), (''body'', PStr ''Hello'')]] []
   \<noteq> generate_cache_key (stub_lib None None) ''analyze_email_content''
     [PObj ''app.services.ai_service.AiService'' 0x7f3a1c2d6f40,
      PDict [(''id'', PInt 7), (''subject'', PStr ''Hi''), (''body'', PStr ''Hello'')]] []"
    unfolding k1 k2 by simp
  from k1 k2 ne show ?thesis by (intro conjI)
qed

section \<open>Cache invalidation\<close>

lemma parse_glob_plain:
  "set p \<inter> glob_special = {} \<Longrightarrow> parse_glob Outside (p @ q) = map Lit p @ parse_glob Outside q"
  by (induction p) (auto simp: glob_special_def)

lemma match_Star_any: "match_tokens [Star] s"
  by (induction s) auto

lemma match_Lit_prefix: "match_tokens (map Lit p @ [Star]) k = has_prefix p k"
proof (induction p arbitrary: k)
  case Nil
  then show ?case by (simp add: match_Star_any has_prefix_def)
next
  case (Cons c p)
  then show ?case by (cases k) (auto simp: has_prefix_def)
qed

lemma glob_prefix:
  assumes "set p \<inter> glob_special = {}"
  shows "glob_match (p @ ''*'') k = has_prefix p k"
  using parse_glob_plain [OF assms, of "''*''"] by (simp add: glob_match_def match_Lit_prefix)

lemma cache_prefix_plain: "set ''intellimail:cache:'' \<inter> glob_special = {}"
  by (simp add: glob_special_def)

lemma invalidate_prefix:
  assumes "set pattern \<inter> glob_special = {}"
  shows "glob_match (''intellimail:cache:'' @ pattern @ ''*'') k
       = has_prefix (''intellimail:cache:'' @ pattern) k"
proof -
  from assms cache_prefix_plain have "set (''intellimail:cache:'' @ pattern) \<inter> glob_special = {}"
    by auto
  from glob_prefix [OF this] show ?thesis by simp
qed

lemma invalidate_ok:
  assumes "set pattern \<inter> glob_special = {}" and "faults r = []"
  shows "invalidate_cache pattern r =
     (length (filter (\<lambda>e. has_prefix (''intellimail:cache:'' @ pattern) (fst e)) (entries r)),
      r\<lparr>entries := filter (\<lambda>e. \<not> has_prefix (''intellimail:cache:'' @ pattern) (fst e)) (entries r)\<rparr>)"
proof -
  define P where "P = ''intellimail:cache:'' @ pattern"
  let ?P = "\<lambda>e. has_prefix P (fst e)"
  have ps: "''intellimail:cache:'' @ pattern @ ''*'' = P @ ''*''"
    by (simp add: P_def)
  have gm: "glob_match (P @ ''*'') k = has_prefix P k" for k
    using invalidate_prefix [OF assms(1), of k] by (simp add: P_def)
  have keys: "filter (glob_match (P @ ''*'')) (map fst (entries r)) = map fst (filter ?P (entries r))"
    by (simp add: gm filter_map comp_def)
  have mem: "filter (\<lambda>e. fst e \<in> fst ` {x \<in> set (entries r). ?P x}) (entries r) = filter ?P (entries r)"
    by (rule filter_cong) force+
  have nmem: "filter (\<lambda>e. fst e \<notin> fst ` {x \<in> set (entries r). ?P x}) (entries r)
      = filter (\<lambda>e. \<not> ?P e) (entries r)"
    by (rule filter_cong) force+
  have nf: "next_fault r = (False, r)"
    using assms(2) by (simp add: next_fault_def)
  show ?thesis
    unfolding invalidate_cache_def ps P_def [symmetric]
  proof (cases "filter ?P (entries r) = []")
    case True
    then have "filter (\<lambda>e. \<not> ?P e) (entries r) = entries r"
      by (simp add: filter_empty_conv)
    with True show "(case redis_keys r (P @ ''*'') of
        (Inl e, r') \<Rightarrow> (0, r')
      | (Inr keys, r') \<Rightarrow>
          if keys \<noteq> [] then
            (case redis_delete r' keys of
               (Inl e, r'') \<Rightarrow> (0, r'')
             | (Inr cnt, r'') \<Rightarrow> (cnt, r''))
          else (0, r'))
       = (length (filter ?P (entries r)), r\<lparr>entries := filter (\<lambda>e. \<not> ?P e) (entries r)\<rparr>)"
      by (simp add: redis_keys_def nf keys)
  next
    case False
    then show "(case redis_keys r (P @ ''*'') of
        (Inl e, r') \<Rightarrow> (0, r')
      | (Inr keys, r') \<Rightarrow>
          if keys \<noteq> [] then
            (case redis_delete r' keys of
               (Inl e, r'') \<Rightarrow> (0, r'')
             | (Inr cnt, r'') \<Rightarrow> (cnt, r''))
          else (0, r'))
       = (length (filter ?P (entries r)), r\<lparr>entries := filter (\<lambda>e. \<not> ?P e) (entries r)\<rparr>)"
      by (simp add: redis_keys_def redis_delete_def nf keys mem nmem)
  qed
qed

lemma invalidate_fault_keys:
  assumes "faults r = True # fs"
  shows "invalidate_cache pattern r = (0, r\<lparr>faults := fs\<rparr>)"
  using assms by (simp add: invalidate_cache_def redis_keys_def next_fault_def)

lemma invalidate_fault_delete:
  assumes "faults r = False # True # fs"
  shows "fst (invalidate_cache pattern r) = 0 \<and> entries (snd (invalidate_cache pattern r)) = entries r"
  using assms by (simp add: invalidate_cache_def redis_keys_def redis_delete_def next_fault_def)

lemma invalidate_example:
  "invalidate_cache ''x''
     \<lparr>entries = [(''intellimail:cache:x:1'', ''a'', 60), (''intellimail:cache:x:2'', ''b'', 60),
                 (''intellimail:cache:y:1'', ''c'', 60)], faults = []\<rparr>
   = (2, \<lparr>entries = [(''intellimail:cache:y:1'', ''c'', 60)], faults = []\<rparr>)"
  by (subst invalidate_ok) (simp_all add: glob_special_def has_prefix_def)

text \<open>
  The claim C9 as stated fails for a pattern with a wildcard: the pattern is handed to
  \<open>KEYS\<close> as a key pattern, so \<open>?\<close> deletes a key whose name does not begin with the
  prefix followed by \<open>?\<close>.
\<close>

theorem invalidate_wildcard_counterexample:
  "invalidate_cache ''?'' \<lparr>entries = [(''intellimail:cache:abc'', ''a'', 60)], faults = []\<rparr>
     = (1, \<lparr>entries = [], faults = []\<rparr>)
   \<and> \<not> has_prefix (''intellimail:cache:'' @ ''?'') ''intellimail:cache:abc''"
  by (simp add: invalidate_cache_def redis_keys_def redis_delete_def next_fault_def glob_match_def
      has_prefix_def)

text \<open>
  C9, amended.  For every pattern without the characters \<open>*\<close>, \<open>?\<close>, \<open>[\<close> and
  backslash: when the store answers, invalidation deletes exactly the entries whose key
  begins with \<open>intellimail:cache:\<close> followed by the pattern and returns their number (0
  when there is none); when \<open>KEYS\<close> or \<open>DEL\<close> fails it returns 0 and no entry is
  deleted.  With keys \<open>x:1\<close>, \<open>x:2\<close>, \<open>y:1\<close> under the prefix, pattern \<open>x\<close> deletes
  two entries and leaves \<open>y:1\<close>.
\<close>

theorem invalidate_by_prefix:
  assumes "set pattern \<inter> glob_special = {}"
  shows "(faults r = [] \<longrightarrow>
       invalidate_cache pattern r =
         (length (filter (\<lambda>e. has_prefix (''intellimail:cache:'' @ pattern) (fst e)) (entries r)),
          r\<lparr>entries := filter (\<lambda>e. \<not> has_prefix (''intellimail:cache:'' @ pattern) (fst e)) (entries r)\<rparr>))
    \<and> (faults r = True # fs \<longrightarrow> invalidate_cache pattern r = (0, r\<lparr>faults := fs\<rparr>))
    \<and> (faults r = False # True # fs \<longrightarrow>
         fst (invalidate_cache pattern r) = 0 \<and> entries (snd (invalidate_cache pattern r)) = entries r)
    \<and> invalidate_cache ''x''
         \<lparr>entries = [(''intellimail:cache:x:1'', ''a'', 60), (''intellimail:cache:x:2'', ''b'', 60),
                     (''intellimail:cache:y:1'', ''c'', 60)], faults = []\<rparr>
       = (2, \<lparr>entries = [(''intellimail:cache:y:1'', ''c'', 60)], faults = []\<rparr>)"
  using invalidate_ok [OF assms] invalidate_fault_keys invalidate_fault_delete invalidate_example
  by blast

theorem invalidate_by_prefix_witness:
  "set ''user:'' \<inter> glob_special = {}
   \<and> invalidate_cache ''user:''
        \<lparr>entries = [(''intellimail:cache:user:7'', ''a'', 60), (''intellimail:cache:mail:7'', ''b'', 60)],
         faults = []\<rparr>
      = (1, \<lparr>entries = [(''intellimail:cache:mail:7'', ''b'', 60)], faults = []\<rparr>)
   \<and> invalidate_cache ''user:''
        \<lparr>entries = [(''intellimail:cache:user:7'', ''a'', 60)], faults = [True]\<rparr>
      = (0, \<lparr>entries = [(''intellimail:cache:user:7'', ''a'', 60)], faults = []\<rparr>)
   \<and> fst (invalidate_cache ''user:''
        \<lparr>entries = [(''intellimail:cache:user:7'', ''a'', 60)], faults = [False, True]\<rparr>) = 0"
proof -
  have p: "set ''user:'' \<inter> glob_special = {}"
    by (simp add: glob_special_def)
  have a: "invalidate_cache ''user:''
        \<lparr>entries = [(''intellimail:cache:user:7'', ''a'', 60), (''intellimail:cache:mail:7'', ''b'', 60)],
         faults = []\<rparr>
      = (1, \<lparr>entries = [(''intellimail:cache:mail:7'', ''b'', 60)], faults = []\<rparr>)"
    using invalidate_by_prefix [OF p, of
        "\<lparr>entries = [(''intellimail:cache:user:7'', ''a'', 60), (''intellimail:cache:mail:7'', ''b'', 60)],
         faults = []\<rparr>" "[]", THEN conjunct1]
    by (simp add: has_prefix_def)
  have b: "invalidate_cache ''user:''
        \<lparr>entries = [(''intellimail:cache:user:7'', ''a'', 60)], faults = [True]\<rparr>
      = (0, \<lparr>entries = [(''intellimail:cache:user:7'', ''a'', 60)], faults = []\<rparr>)"
    using invalidate_by_prefix [OF p, of
        "\<lparr>entries = [(''intellimail:cache:user:7'', ''a'', 60)], faults = [True]\<rparr>" "[]",
        THEN conjunct2, THEN conjunct1]
    by simp
  have c: "fst (invalidate_cache ''user:''
        \<lparr>entries = [(''intellimail:cache:user:7'', ''a'', 60)], faults = [False, True]\<rparr>) = 0"
    using invalidate_by_prefix [OF p, of
        "\<lparr>entries = [(''intellimail:cache:user:7'', ''a'', 60)], faults = [False, True]\<rparr>" "[]",
        THEN conjunct2, THEN conjunct2, THEN conjunct1]
    by simp
  from p a b c show ?thesis by (intro conjI)
qed

section \<open>The cache decorator\<close>

lemma lower_True: "lower ''True'' = ''true''"
  by code_simp

lemma cache_enabled_by_default: "is_cache_enabled Map.empty"
  by (simp add: is_cache_enabled_def lower_True)

lemma cache_lookup_fails:
  assumes "is_cache_enabled env" and "faults r = True # fs"
  shows "cache env lib ttl func_name func args kwargs (r, s)
       = (fst (func args kwargs s), r\<lparr>faults := fs\<rparr>, snd (func args kwargs s))"
  using assms
  by (simp add: cache_def redis_get_def next_fault_def Let_def split: prod.splits)

lemma cache_miss_unserializable:
  assumes "is_cache_enabled env" and "fst (next_fault r) = False"
    and "map_option fst (map_of (entries r) (generate_cache_key lib func_name args kwargs)) \<in> {None, Some []}"
    and "func args kwargs s = (Inr result, s')"
    and "json_dumps lib result = None"
  shows "cache env lib ttl func_name func args kwargs (r, s) = (Inr result, snd (next_fault r), s')"
  using assms
  by (auto simp add: cache_def redis_get_def next_fault_def Let_def serialize_for_cache_def
      split: prod.splits list.splits)

lemma cache_miss_store_fails:
  assumes "is_cache_enabled env" and "faults r = False # True # fs"
    and "map_option fst (map_of (entries r) (generate_cache_key lib func_name args kwargs)) \<in> {None, Some []}"
    and "func args kwargs s = (Inr result, s')"
    and "json_dumps lib result = Some serialized"
  shows "cache env lib ttl func_name func args kwargs (r, s) = (Inr result, r\<lparr>faults := fs\<rparr>, s')"
  using assms
  by (auto simp add: cache_def redis_get_def redis_setex_def next_fault_def Let_def serialize_for_cache_def
      split: prod.splits list.splits)

lemma cache_hit_corrupt:
  assumes "is_cache_enabled env" and "fst (next_fault r) = False"
    and "map_of (entries r) (generate_cache_key lib func_name args kwargs) = Some (v, t)"
    and "v \<noteq> []" and "json_loads lib v = None"
  shows "cache env lib ttl func_name func args kwargs (r, s) = (Inr PNone, snd (next_fault r), s)"
  using assms
  by (auto simp add: cache_def redis_get_def next_fault_def Let_def deserialize_from_cache_def
      split: prod.splits list.splits)

text \<open>
  C6.  With caching enabled, a failure of the cache never reaches the caller.  When the
  lookup raises \<open>RedisError\<close>, the wrapper returns what the wrapped function returns.
  When the lookup finds nothing and the function produces a value, the wrapper returns
  exactly that value, both when the value cannot be serialized and when storing it raises
  \<open>RedisError\<close>; no entry of the store is changed.
\<close>

theorem cache_failures_not_fatal:
  assumes "is_cache_enabled env" and "func args kwargs s = (Inr result, s')"
  shows "(faults r = True # fs \<longrightarrow>
        cache env lib ttl func_name func args kwargs (r, s) = (Inr result, r\<lparr>faults := fs\<rparr>, s'))
    \<and> (fst (next_fault r) = False
        \<and> map_option fst (map_of (entries r) (generate_cache_key lib func_name args kwargs)) \<in> {None, Some []}
        \<and> json_dumps lib result = None \<longrightarrow>
        cache env lib ttl func_name func args kwargs (r, s) = (Inr result, snd (next_fault r), s')
        \<and> entries (snd (next_fault r)) = entries r)
    \<and> (faults r = False # True # fs
        \<and> map_option fst (map_of (entries r) (generate_cache_key lib func_name args kwargs)) \<in> {None, Some []}
        \<and> json_dumps lib result = Some serialized \<longrightarrow>
        cache env lib ttl func_name func args kwargs (r, s) = (Inr result, r\<lparr>faults := fs\<rparr>, s'))"
proof (intro conjI impI)
  assume "faults r = True # fs"
  from cache_lookup_fails [OF assms(1) this, of lib ttl func_name func args kwargs s]
  show "cache env lib ttl func_name func args kwargs (r, s) = (Inr result, r\<lparr>faults := fs\<rparr>, s')"
    by (simp add: assms(2))
next
  assume a: "fst (next_fault r) = False
        \<and> map_option fst (map_of (entries r) (generate_cache_key lib func_name args kwargs)) \<in> {None, Some []}
        \<and> json_dumps lib result = None"
  show "cache env lib ttl func_name func args kwargs (r, s) = (Inr result, snd (next_fault r), s')"
    by (rule cache_miss_unserializable) (use a assms in auto)
  show "entries (snd (next_fault r)) = entries r"
    by (simp add: next_fault_def split: list.splits)
next
  assume a: "faults r = False # True # fs
        \<and> map_option fst (map_of (entries r) (generate_cache_key lib func_name args kwargs)) \<in> {None, Some []}
        \<and> json_dumps lib result = Some serialized"
  show "cache env lib ttl func_name func args kwargs (r, s) = (Inr result, r\<lparr>faults := fs\<rparr>, s')"
    by (rule cache_miss_store_fails [where serialized = serialized]) (use a assms in auto)
qed

theorem cache_failures_not_fatal_witness:
  "cache Map.empty (stub_lib None None) 60 ''f'' (\<lambda>args kwargs s. (Inr (PInt 42), Suc s)) [PInt 1] []
       (\<lparr>entries = [], faults = [True]\<rparr>, 0 :: nat)
     = (Inr (PInt 42), \<lparr>entries = [], faults = []\<rparr>, 1)
   \<and> cache Map.empty (stub_lib None None) 60 ''f'' (\<lambda>args kwargs s. (Inr (PInt 42), Suc s)) [PInt 1] []
       (\<lparr>entries = [], faults = []\<rparr>, 0 :: nat)
     = (Inr (PInt 42), \<lparr>entries = [], faults = []\<rparr>, 1)
   \<and> cache Map.empty (stub_lib (Some ''42'') None) 60 ''f'' (\<lambda>args kwargs s. (Inr (PInt 42), Suc s)) [PInt 1] []
       (\<lparr>entries = [], faults = [False, True]\<rparr>, 0 :: nat)
     = (Inr (PInt 42), \<lparr>entries = [], faults = []\<rparr>, 1)"
proof -
  have a: "cache Map.empty (stub_lib None None) 60 ''f'' (\<lambda>args kwargs s. (Inr (PInt 42), Suc s)) [PInt 1] []
       (\<lparr>entries = [], faults = [True]\<rparr>, 0 :: nat)
     = (Inr (PInt 42), \<lparr>entries = [], faults = []\<rparr>, 1)"
    using cache_failures_not_fatal [where env = Map.empty
        and func = "\<lambda>args kwargs s. (Inr (PInt 42), Suc s)" and args = "[PInt 1]" and kwargs = "[]"
        and s = "0 :: nat" and result = "PInt 42" and s' = 1 and r = "\<lparr>entries = [], faults = [True]\<rparr>"
        and fs = "[]" and lib = "stub_lib None None" and ttl = 60 and func_name = "''f''" and serialized = "''42''"]
    by (simp add: cache_enabled_by_default)
  have b: "cache Map.empty (stub_lib None None) 60 ''f'' (\<lambda>args kwargs s. (Inr (PInt 42), Suc s)) [PInt 1] []
       (\<lparr>entries = [], faults = []\<rparr>, 0 :: nat)
     = (Inr (PInt 42), \<lparr>entries = [], faults = []\<rparr>, 1)"
    using cache_failures_not_fatal [where env = Map.empty
        and func = "\<lambda>args kwargs s. (Inr (PInt 42), Suc s)" and args = "[PInt 1]" and kwargs = "[]"
        and s = "0 :: nat" and result = "PInt 42" and s' = 1 and r = "\<lparr>entries = [], faults = []\<rparr>"
        and fs = "[]" and lib = "stub_lib None None" and ttl = 60 and func_name = "''f''" and serialized = "''42''"]
    by (simp add: cache_enabled_by_default next_fault_def stub_lib_def)
  have c: "cache Map.empty (stub_lib (Some ''42'') None) 60 ''f'' (\<lambda>args kwargs s. (Inr (PInt 42), Suc s)) [PInt 1] []
       (\<lparr>entries = [], faults = [False, True]\<rparr>, 0 :: nat)
     = (Inr (PInt 42), \<lparr>entries = [], faults = []\<rparr>, 1)"
    using cache_failures_not_fatal [where env = Map.empty
        and func = "\<lambda>args kwargs s. (Inr (PInt 42), Suc s)" and args = "[PInt 1]" and kwargs = "[]"
        and s = "0 :: nat" and result = "PInt 42" and s' = 1 and r = "\<lparr>entries = [], faults = [False, True]\<rparr>"
        and fs = "[]" and lib = "stub_lib (Some ''42'') None" and ttl = 60 and func_name = "''f''" and serialized = "''42''"]
    by (simp add: cache_enabled_by_default stub_lib_def)
  from a b c show ?thesis by (intro conjI)
qed

text \<open>
  C10.  With caching enabled and the store answering, a stored string that is not empty
  and that \<open>json.loads\<close> rejects makes the wrapper return \<open>None\<close>: the wrapped function
  is not called (the result is the same for every function and the function's own state
  is returned as it was), and the store is left as it is.  The cached
  \<open>analyze_email_content\<close> then returns \<open>None\<close> instead of an analysis dict.
\<close>

theorem corrupt_entry_yields_None:
  assumes "is_cache_enabled env" and "fst (next_fault r) = False"
    and "map_of (entries r) (generate_cache_key lib func_name args kwargs) = Some (v, t)"
    and "v \<noteq> []" and "json_loads lib v = None"
  shows "cache env lib ttl func_name func args kwargs (r, s) = (Inr PNone, snd (next_fault r), s)
    \<and> entries (snd (next_fault r)) = entries r"
proof -
  have "entries (snd (next_fault r)) = entries r"
    by (simp add: next_fault_def split: list.splits)
  with cache_hit_corrupt [OF assms] show ?thesis
    by simp
qed

theorem corrupt_entry_yields_None_witness:
  "cached_analyze_email_content Map.empty (stub_lib None None) (fixed_backends (Some ''- call Bob'') None)
      (PObj ''app.services.ai_service.AiService'' 4096) (PDict [(''body'', PStr ''Hello'')])
      (\<lparr>entries = [(generate_cache_key (stub_lib None None) ''analyze_email_content''
                       [PObj ''app.services.ai_service.AiService'' 4096, PDict [(''body'', PStr ''Hello'')]] [],
                     ''{broken'', 3600)],
        faults = []\<rparr>, [])
   = (Inr PNone,
      \<lparr>entries = [(generate_cache_key (stub_lib None None) ''analyze_email_content''
                       [PObj ''app.services.ai_service.AiService'' 4096, PDict [(''body'', PStr ''Hello'')]] [],
                     ''{broken'', 3600)],
        faults = []\<rparr>, [])"
  unfolding cached_analyze_email_content_def
  using corrupt_entry_yields_None [of Map.empty
      "\<lparr>entries = [(generate_cache_key (stub_lib None None) ''analyze_email_content''
                       [PObj ''app.services.ai_service.AiService'' 4096, PDict [(''body'', PStr ''Hello'')]] [],
                     ''{broken'', 3600)],
        faults = []\<rparr>"
      "stub_lib None None" "''analyze_email_content''"
      "[PObj ''app.services.ai_service.AiService'' 4096, PDict [(''body'', PStr ''Hello'')]]" "[]"
      "''{broken''" 3600 3600 "analyze_email_content_func (fixed_backends (Some ''- call Bob'') None)" "[]"]
  by (simp add: cache_enabled_by_default next_fault_def stub_lib_def)

section \<open>The importance score\<close>

lemma startswith_append: "startswith s w = (\<exists>suf. s = w @ suf)"
  by (induction s w rule: startswith.induct) auto

lemma contains_occurs_in: "contains s w = occurs_in w s"
proof (induction s)
  case Nil
  show ?case by (auto simp: occurs_in_def)
next
  case (Cons c cs)
  have "occurs_in w (c # cs) = ((\<exists>suf. c # cs = w @ suf) \<or> occurs_in w cs)"
  proof
    assume "occurs_in w (c # cs)"
    then obtain pre suf where e: "c # cs = pre @ w @ suf"
      by (auto simp: occurs_in_def)
    show "(\<exists>suf. c # cs = w @ suf) \<or> occurs_in w cs"
    proof (cases pre)
      case Nil
      with e show ?thesis by auto
    next
      case (Cons p ps)
      with e have "cs = ps @ w @ suf" by simp
      then show ?thesis by (auto simp: occurs_in_def)
    qed
  next
    assume "(\<exists>suf. c # cs = w @ suf) \<or> occurs_in w cs"
    then show "occurs_in w (c # cs)"
    proof
      assume "\<exists>suf. c # cs = w @ suf"
      then obtain suf where "c # cs = [] @ w @ suf" by auto
      then show ?thesis unfolding occurs_in_def by blast
    next
      assume "occurs_in w cs"
      then obtain pre suf where "cs = pre @ w @ suf" by (auto simp: occurs_in_def)
      then have "c # cs = (c # pre) @ w @ suf" by simp
      then show ?thesis unfolding occurs_in_def by blast
    qed
  qed
  with Cons show ?case by (simp add: startswith_append)
qed

lemma list_ex_any_occurs: "list_ex (\<lambda>word. contains s word) kws = any_occurs kws s"
  by (simp add: list_ex_iff any_occurs_def contains_occurs_in)

lemma person_filter_labelled:
  assumes "\<forall>e \<in> set es. subscript_label e \<noteq> None"
  shows "person_filter es = Some (filter (\<lambda>e. subscript_label e = Some (PStr ''PERSON'')
                       \<or> subscript_label e = Some (PStr ''ORG'')) es)"
  using assms by (induction es) auto

lemma person_filter_unlabelled:
  assumes "\<exists>e \<in> set es. subscript_label e = None"
  shows "person_filter es = None"
  using assms
proof (induction es)
  case Nil
  then show ?case by simp
next
  case (Cons a es)
  show ?case
  proof (cases "subscript_label a")
    case None
    then show ?thesis by simp
  next
    case (Some l)
    with Cons.prems have "\<exists>e \<in> set es. subscript_label e = None" by auto
    from Cons.IH [OF this] Some show ?thesis by simp
  qed
qed

lemma calculate_importance_labelled:
  assumes "\<forall>e \<in> set entities. subscript_label e \<noteq> None"
  shows "calculate_importance subject body entities =
     min (max (fadd (keyword_score (any_occurs urgent_keywords (lower subject))
                       (any_occurs urgent_keywords (take 500 (lower body)))
                       (any_occurs action_keywords (take 1000 (lower body))))
                    (min (fmul (fl (of_nat (count_people entities))) (float_lit 5 100)) (float_lit 2 10)))
              0) 1"
  unfolding calculate_importance_def keyword_score_def Let_def list_ex_any_occurs
    person_filter_labelled [OF assms] count_people_def
  by simp

lemma calculate_importance_unlabelled:
  assumes "\<exists>e \<in> set entities. subscript_label e = None"
  shows "calculate_importance subject body entities = float_lit 5 10"
  unfolding calculate_importance_def Let_def person_filter_unlabelled [OF assms]
  by simp

lemma float_lit_0_4: "float_lit 4 10 = 3602879701896397 / 9007199254740992"
  by code_simp

lemma float_lit_0_6: "float_lit 6 10 = 5404319552844595 / 9007199254740992"
  by code_simp

lemma float_lit_0_85: "float_lit 85 100 = 7656119366529843 / 9007199254740992"
  by code_simp

lemma importance_subject_only:
  "calculate_importance ''URGENT: deadline tomorrow'' ''See you at the station'' []
     = 3602879701896397 / 9007199254740992"
  by code_simp

lemma importance_subject_and_action:
  "calculate_importance ''URGENT: deadline tomorrow'' ''please review the draft'' []
     = 1351079888211149 / 2251799813685248"
  by code_simp

lemma importance_five_entities:
  "calculate_importance ''URGENT: deadline tomorrow'' ''please review the draft''
     [entity_dict (''Ann'', ''PERSON'', 0, 3), entity_dict (''Bob'', ''PERSON'', 4, 7),
      entity_dict (''Acme'', ''ORG'', 8, 12), entity_dict (''Cy'', ''PERSON'', 13, 15),
      entity_dict (''Initech'', ''ORG'', 16, 23)]
     = 3602879701896397 / 4503599627370496"
  by code_simp

lemma importance_upper_case_body:
  "calculate_importance ''Hello'' ''URGENT: call me'' [] = 3602879701896397 / 18014398509481984"
  by code_simp

lemma no_keyword_in_upper_case_body: "any_occurs urgent_keywords (take 500 ''URGENT: call me'') = False"
  unfolding list_ex_any_occurs [symmetric] by code_simp

lemma importance_entity_without_label:
  "calculate_importance ''URGENT: deadline tomorrow'' ''See you at the station''
     [PDict [(''text'', PStr ''Ann'')]] = 1 / 2"
  by code_simp

lemma float_sum_0_4_0_2: "fadd (float_lit 4 10) (float_lit 2 10) = 1351079888211149 / 2251799813685248"
  by code_simp

text \<open>
  The claim C2 as stated fails in three places.  Its second example: the score is the
  float sum 0.4 + 0.2, which is 0.6000000000000001 and not the float 0.6.  The body is
  lower-cased before it is searched: the body \<open>URGENT: call me\<close> contains no keyword as
  it stands and still adds 0.2.  An entity without a \<open>label\<close> key makes the scorer
  return its fallback 0.5, where the rule of the claim gives 0.4.
\<close>

theorem importance_rule_counterexample:
  "calculate_importance ''URGENT: deadline tomorrow'' ''please review the draft'' [] \<noteq> float_lit 6 10
   \<and> calculate_importance ''Hello'' ''URGENT: call me'' [] = float_lit 2 10
   \<and> any_occurs urgent_keywords (take 500 ''URGENT: call me'') = False
   \<and> calculate_importance ''URGENT: deadline tomorrow'' ''See you at the station''
         [PDict [(''text'', PStr ''Ann'')]] = float_lit 5 10
   \<and> float_lit 5 10 \<noteq> float_lit 4 10"
proof (intro conjI)
  show "calculate_importance ''URGENT: deadline tomorrow'' ''please review the draft'' [] \<noteq> float_lit 6 10"
    by (simp add: importance_subject_and_action float_lit_0_6)
  show "calculate_importance ''Hello'' ''URGENT: call me'' [] = float_lit 2 10"
    by (simp only: importance_upper_case_body float_lit_0_2)
  show "any_occurs urgent_keywords (take 500 ''URGENT: call me'') = False"
    by (rule no_keyword_in_upper_case_body)
  show "calculate_importance ''URGENT: deadline tomorrow'' ''See you at the station''
         [PDict [(''text'', PStr ''Ann'')]] = float_lit 5 10"
    by (simp only: importance_entity_without_label float_lit_0_5)
  show "float_lit 5 10 \<noteq> float_lit 4 10"
    by (simp add: float_lit_0_5 float_lit_0_4)
qed

text \<open>
  C2, amended.  The score is a function of subject, body and entities alone.  If some
  entity carries no label it is the fallback 0.5.  Otherwise, starting from 0, the
  scorer adds, in float arithmetic and in this order, 0.4 if an urgent keyword appears
  in the lower-cased subject, 0.2 if one appears in the first 500 characters of the
  lower-cased body, 0.2 if an action keyword appears in the first 1000 characters of the
  lower-cased body, and the smaller of 0.05 times the number of PERSON or ORG entities
  and 0.2; the total is clamped to [0, 1].  In both cases the score lies in [0, 1].
  The subject "URGENT: deadline tomorrow" with a keyword-free body and no entity scores
  0.4; with "please review" in the body it scores the float sum
  0.4 + 0.2 = 0.6000000000000001; with five PERSON/ORG entities in addition it scores
  0.8, not 0.85.
\<close>

theorem importance_rule:
  "calculate_importance subject body entities =
       (if \<forall>e \<in> set entities. subscript_label e \<noteq> None
        then min (max (fadd (keyword_score (any_occurs urgent_keywords (lower subject))
                               (any_occurs urgent_keywords (take 500 (lower body)))
                               (any_occurs action_keywords (take 1000 (lower body))))
                            (min (fmul (fl (of_nat (count_people entities))) (float_lit 5 100))
                                 (float_lit 2 10)))
                      0) 1
        else float_lit 5 10)
    \<and> 0 \<le> calculate_importance subject body entities
    \<and> calculate_importance subject body entities \<le> 1
    \<and> calculate_importance ''URGENT: deadline tomorrow'' ''See you at the station'' [] = float_lit 4 10
    \<and> calculate_importance ''URGENT: deadline tomorrow'' ''please review the draft'' []
        = fadd (float_lit 4 10) (float_lit 2 10)
    \<and> fadd (float_lit 4 10) (float_lit 2 10) = 1351079888211149 / 2251799813685248
    \<and> calculate_importance ''URGENT: deadline tomorrow'' ''please review the draft''
         [entity_dict (''Ann'', ''PERSON'', 0, 3), entity_dict (''Bob'', ''PERSON'', 4, 7),
          entity_dict (''Acme'', ''ORG'', 8, 12), entity_dict (''Cy'', ''PERSON'', 13, 15),
          entity_dict (''Initech'', ''ORG'', 16, 23)] = float_lit 8 10
    \<and> float_lit 8 10 \<noteq> float_lit 85 100"
proof -
  have formula: "calculate_importance subject body entities =
       (if \<forall>e \<in> set entities. subscript_label e \<noteq> None
        then min (max (fadd (keyword_score (any_occurs urgent_keywords (lower subject))
                               (any_occurs urgent_keywords (take 500 (lower body)))
                               (any_occurs action_keywords (take 1000 (lower body))))
                            (min (fmul (fl (of_nat (count_people entities))) (float_lit 5 100))
                                 (float_lit 2 10)))
                      0) 1
        else float_lit 5 10)"
  proof (cases "\<forall>e \<in> set entities. subscript_label e \<noteq> None")
    case True
    show ?thesis
      unfolding if_P [OF True] by (rule calculate_importance_labelled [OF True])
  next
    case False
    then have ex: "\<exists>e \<in> set entities. subscript_label e = None" by simp
    show ?thesis
      unfolding if_not_P [OF False] by (rule calculate_importance_unlabelled [OF ex])
  qed
  have lo: "0 \<le> calculate_importance subject body entities"
    unfolding formula by (simp add: float_lit_0_5)
  have hi: "calculate_importance subject body entities \<le> 1"
    unfolding formula by (simp add: float_lit_0_5)
  have e1: "calculate_importance ''URGENT: deadline tomorrow'' ''See you at the station'' [] = float_lit 4 10"
    by (simp only: importance_subject_only float_lit_0_4)
  have e2: "calculate_importance ''URGENT: deadline tomorrow'' ''please review the draft'' []
        = fadd (float_lit 4 10) (float_lit 2 10)"
    by (simp only: importance_subject_and_action float_sum_0_4_0_2)
  have e3: "calculate_importance ''URGENT: deadline tomorrow'' ''please review the draft''
         [entity_dict (''Ann'', ''PERSON'', 0, 3), entity_dict (''Bob'', ''PERSON'', 4, 7),
          entity_dict (''Acme'', ''ORG'', 8, 12), entity_dict (''Cy'', ''PERSON'', 13, 15),
          entity_dict (''Initech'', ''ORG'', 16, 23)] = float_lit 8 10"
    by (simp only: importance_five_entities float_lit_0_8)
  have ne: "float_lit 8 10 \<noteq> float_lit 85 100"
    by (simp add: float_lit_0_8 float_lit_0_85)
  from formula lo hi e1 e2 float_sum_0_4_0_2 e3 ne show ?thesis
    by (intro conjI)
qed

theorem importance_rule_witness:
  "calculate_importance ''Hello'' ''Lunch Ann on Tuesday?''
        [entity_dict (''Ann'', ''PERSON'', 6, 9), entity_dict (''Tuesday'', ''DATE'', 13, 20)]
      = float_lit 5 100"
proof -
  have h: "\<forall>e \<in> set [entity_dict (''Ann'', ''PERSON'', 6, 9), entity_dict (''Tuesday'', ''DATE'', 13, 20)].
       subscript_label e \<noteq> None"
    by (simp add: entity_dict_def subscript_label_def)
  have m1: "any_occurs urgent_keywords (lower ''Hello'') = False"
    unfolding list_ex_any_occurs [symmetric] by code_simp
  have m2: "any_occurs urgent_keywords (take 500 (lower ''Lunch Ann on Tuesday?'')) = False"
    unfolding list_ex_any_occurs [symmetric] by code_simp
  have m3: "any_occurs action_keywords (take 1000 (lower ''Lunch Ann on Tuesday?'')) = False"
    unfolding list_ex_any_occurs [symmetric] by code_simp
  have c: "count_people [entity_dict (''Ann'', ''PERSON'', 6, 9), entity_dict (''Tuesday'', ''DATE'', 13, 20)] = 1"
    by code_simp
  have v: "min (max (fadd (keyword_score False False False)
                      (min (fmul (fl (of_nat 1)) (float_lit 5 100)) (float_lit 2 10))) 0) 1 = float_lit 5 100"
    by code_simp
  from importance_rule [of "''Hello''" "''Lunch Ann on Tuesday?''"
      "[entity_dict (''Ann'', ''PERSON'', 6, 9), entity_dict (''Tuesday'', ''DATE'', 13, 20)]", THEN conjunct1]
  show ?thesis
    unfolding if_P [OF h] m1 m2 m3 c v .
qed

end
